theory Spec2Isabelle
  imports Main
begin

section \<open>Automatic TLS initialisation (pkg/server/auto\_tls\_init.go)\<close>

text \<open>
  The development embeds the certificate life cycle of \<^verbatim>\<open>auto_tls_init.go\<close>:
  the load-or-create cascade of one service bundle, the bootstrap of the five bundles,
  the reception of a bundle of CAs by a joining node, the collection of the local CAs
  and the rotation of the host certificates. The file system, the PEM codec, the
  certificate generator, the address splitter and the path locator live in other
  packages; they are parameters of the model (records \<open>env\<close>, \<open>world\<close>).
\<close>

subsection \<open>Errors, panics and outcomes\<close>

type_synonym bytes = string
type_synonym path = string

text \<open>Failures of the operating system other than "not found" and "already exists".\<close>

datatype os_fault = EACCES | EIO

text \<open>
  Go error values. \<open>Wrap err msg\<close> is \<^verbatim>\<open>errors.Wrap(err, msg)\<close>, \<open>Wrapf err fmt args\<close> is
  \<^verbatim>\<open>errors.Wrapf(err, fmt, args...)\<close> with the format string and its arguments kept
  apart, \<open>New msg\<close> is \<^verbatim>\<open>errors.New(msg)\<close>.
\<close>

datatype go_error =
    NotExist path
  | AlreadyExist path
  | OsFault os_fault path
  | New string
  | Wrap go_error string
  | Wrapf go_error string "string list"

text \<open>\<^verbatim>\<open>oserror.IsNotExist\<close> looks through the wrappers.\<close>

fun IsNotExist :: "go_error \<Rightarrow> bool" where
  "IsNotExist (NotExist p) = True"
| "IsNotExist (Wrap e m) = IsNotExist e"
| "IsNotExist (Wrapf e m as) = IsNotExist e"
| "IsNotExist e = False"

datatype go_panic = PanicErr go_error | IndexOutOfRange | NilDereference

text \<open>
  What a call of a function with result type \<^verbatim>\<open>error\<close> does: it returns nil (\<open>Ok\<close>),
  returns an error, or panics.
\<close>

datatype outcome = Ok | Err go_error | Panic go_panic

subsection \<open>Data model\<close>

record pem_Block =
  Type :: string
  Headers :: "(string \<times> string) list"
  Bytes :: bytes

text \<open>A Go byte slice that may be nil is a \<open>bytes option\<close>; \<open>None\<close> is nil.\<close>

record ServiceCertificateBundle =
  CACertificate :: "bytes option"
  CAKey :: "bytes option"
  HostCertificate :: "bytes option"
  HostKey :: "bytes option"

record CertificateBundle =
  InterNode :: ServiceCertificateBundle
  UserAuth :: ServiceCertificateBundle
  SQLService :: ServiceCertificateBundle
  RPCService :: ServiceCertificateBundle
  AdminUIService :: ServiceCertificateBundle

text \<open>The fields of \<^verbatim>\<open>base.Config\<close> that the file reads.\<close>

record Config =
  SSLCertsDir :: string
  Addr :: string
  AdvertiseAddr :: string
  SplitListenSQL :: bool
  SQLAddr :: string
  SQLAdvertiseAddr :: string
  HTTPAddr :: string
  HTTPAdvertiseAddr :: string

text \<open>
  The paths that a \<^verbatim>\<open>certnames.Locator\<close> answers, one field for each method that the
  file calls.
\<close>

record Locator =
  certsDir :: path
  CACertPath :: path
  CAKeyPath :: path
  NodeCertPath :: path
  NodeKeyPath :: path
  ClientCACertPath :: path
  ClientCAKeyPath :: path
  ClientNodeCertPath :: path
  ClientNodeKeyPath :: path
  SQLServiceCACertPath :: path
  SQLServiceCAKeyPath :: path
  SQLServiceCertPath :: path
  SQLServiceKeyPath :: path
  RPCServiceCACertPath :: path
  RPCServiceCAKeyPath :: path
  RPCServiceCertPath :: path
  RPCServiceKeyPath :: path
  UICACertPath :: path
  UICAKeyPath :: path
  UICertPath :: path
  UIKeyPath :: path

type_synonym Duration = int

definition Hour :: Duration where
  "Hour = 3600000000000"

definition defaultCALifetime :: Duration where
  "defaultCALifetime = 10 * 366 * 24 * Hour"

definition defaultCertLifetime :: Duration where
  "defaultCertLifetime = 5 * 366 * 24 * Hour"

definition serviceNameInterNode :: string where
  "serviceNameInterNode = ''cockroach-node''"

definition serviceNameUserAuth :: string where
  "serviceNameUserAuth = ''cockroach-client''"

definition serviceNameSQL :: string where
  "serviceNameSQL = ''cockroach-sql''"

definition serviceNameRPC :: string where
  "serviceNameRPC = ''cockroach-rpc''"

definition serviceNameUI :: string where
  "serviceNameUI = ''cockroach-http''"

subsection \<open>The external collaborators\<close>

text \<open>
  The functions and constants of other packages that the file uses. The certificate
  generators draw random keys and serial numbers: the model gives them the number of
  the draw (\<open>entropy\<close> of the world) as their first argument.
\<close>

record env =
  MakeLocator :: "string \<Rightarrow> Locator"
  SplitHostPort :: "string \<Rightarrow> string \<Rightarrow> go_error + (string \<times> string)"
  PEMToCertificates :: "bytes option \<Rightarrow> go_error + pem_Block list"
  pem_Decode :: "bytes option \<Rightarrow> pem_Block option \<times> bytes"
  pem_EncodeToMemory :: "pem_Block \<Rightarrow> bytes"
  CreateCACertAndKey :: "nat \<Rightarrow> Duration \<Rightarrow> string \<Rightarrow> go_error + (pem_Block \<times> pem_Block)"
  CreateServiceCertAndKey ::
    "nat \<Rightarrow> Duration \<Rightarrow> string \<Rightarrow> string list \<Rightarrow> pem_Block \<Rightarrow> pem_Block \<Rightarrow> bool
      \<Rightarrow> go_error + (pem_Block \<times> pem_Block)"
  caCommonName :: string
  NodeUser :: string

text \<open>
  The file system and the source of randomness. \<open>files\<close> holds the regular files and
  their contents; \<open>stat_fault\<close>, \<open>read_fault\<close>, \<open>write_fault\<close> and \<open>mkdir_fault\<close> say
  where the operating system refuses an operation; \<open>written\<close> is the log of the files
  opened for writing, with the mode asked for; \<open>entropy\<close> counts the draws of the
  certificate generators.
\<close>

record world =
  files :: "path \<rightharpoonup> bytes"
  stat_fault :: "path \<rightharpoonup> os_fault"
  read_fault :: "path \<rightharpoonup> os_fault"
  write_fault :: "path \<rightharpoonup> os_fault"
  mkdir_fault :: "os_fault option"
  written :: "(path \<times> nat) list"
  entropy :: nat

text \<open>
  Modelled from the spec: \<^verbatim>\<open>os.Stat\<close> and \<^verbatim>\<open>os.ReadFile\<close> are not under src/; the
  credential store loads bytes by path, or answers not-found, permission-denied or
  an I/O error. A failed read leaves no data.
\<close>

definition Stat :: "world \<Rightarrow> path \<Rightarrow> go_error + unit" where
  "Stat w p =
     (case stat_fault w p of
        Some f \<Rightarrow> Inl (OsFault f p)
      | None \<Rightarrow> (case files w p of None \<Rightarrow> Inl (NotExist p) | Some _ \<Rightarrow> Inr ()))"

definition ReadFile :: "world \<Rightarrow> path \<Rightarrow> go_error + bytes" where
  "ReadFile w p =
     (case read_fault w p of
        Some f \<Rightarrow> Inl (OsFault f p)
      | None \<Rightarrow> (case files w p of None \<Rightarrow> Inl (NotExist p) | Some b \<Rightarrow> Inr b))"

text \<open>
  Modelled from the spec: \<^verbatim>\<open>securityassets.Loader.FileExists\<close> is not under src/; a
  file exists when its status can be read, does not exist when the status call answers
  not-found, and any other failure is returned.
\<close>

definition FileExists :: "world \<Rightarrow> path \<Rightarrow> go_error + bool" where
  "FileExists w p =
     (case Stat w p of
        Inl err \<Rightarrow> (if IsNotExist err then Inr False else Inl err)
      | Inr _ \<Rightarrow> Inr True)"

text \<open>
  Modelled from the spec: \<^verbatim>\<open>security.WritePEMToFile\<close> is not under src/; the store
  answers already-exists when overwriting is not allowed and the path exists, or an
  I/O error, and otherwise holds the encoded block under the path. A nil block is
  dereferenced after the file has been opened.
\<close>

definition WritePEMToFile ::
  "env \<Rightarrow> path \<Rightarrow> nat \<Rightarrow> bool \<Rightarrow> pem_Block option \<Rightarrow> world \<Rightarrow> outcome \<times> world" where
  "WritePEMToFile env p mode overwrite blk w =
     (case write_fault w p of
        Some f \<Rightarrow> (Err (OsFault f p), w)
      | None \<Rightarrow>
          if \<not> overwrite \<and> files w p \<noteq> None then (Err (AlreadyExist p), w)
          else (case blk of
                  None \<Rightarrow>
                    (Panic NilDereference,
                     w\<lparr>files := (files w)(p \<mapsto> []), written := written w @ [(p, mode)]\<rparr>)
                | Some b \<Rightarrow>
                    (Ok,
                     w\<lparr>files := (files w)(p \<mapsto> pem_EncodeToMemory env b),
                       written := written w @ [(p, mode)]\<rparr>)))"

text \<open>
  Modelled from the spec: \<^verbatim>\<open>Locator.EnsureCertsDirectory\<close> is not under src/; it
  creates the directory when it is missing and fails when it cannot. Directories are
  not files of the store.
\<close>

definition EnsureCertsDirectory :: "Locator \<Rightarrow> world \<Rightarrow> go_error option" where
  "EnsureCertsDirectory cl w =
     (case mkdir_fault w of None \<Rightarrow> None | Some f \<Rightarrow> Some (OsFault f (certsDir cl)))"

subsection \<open>Loading and writing certificate and key files\<close>

definition loadCertificateFile :: "world \<Rightarrow> path \<Rightarrow> go_error + bytes" where
  "loadCertificateFile w certPath = ReadFile w certPath"

definition loadKeyFile :: "world \<Rightarrow> path \<Rightarrow> go_error + bytes" where
  "loadKeyFile w keyPath = ReadFile w keyPath"

text \<open>Mode 0644 for certificates, 0600 for keys.\<close>

definition writeCertificateFile ::
  "env \<Rightarrow> path \<Rightarrow> pem_Block option \<Rightarrow> bool \<Rightarrow> world \<Rightarrow> outcome \<times> world" where
  "writeCertificateFile env certFilePath certificatePEM overwrite w =
     WritePEMToFile env certFilePath 420 overwrite certificatePEM w"

definition writeKeyFile ::
  "env \<Rightarrow> path \<Rightarrow> pem_Block option \<Rightarrow> bool \<Rightarrow> world \<Rightarrow> outcome \<times> world" where
  "writeKeyFile env keyFilePath keyPEM overwrite w =
     WritePEMToFile env keyFilePath 384 overwrite keyPEM w"

subsection \<open>extractHosts\<close>

text \<open>The inner loop of \<^verbatim>\<open>extractHosts\<close>: is the host name already in the result?\<close>

fun found_in :: "string list \<Rightarrow> string \<Rightarrow> bool" where
  "found_in [] hostname = False"
| "found_in (h # res) hostname = (if h = hostname then True else found_in res hostname)"

text \<open>
  The outer loop, with the result so far. A failure of \<^verbatim>\<open>addr.SplitHostPort\<close> is a
  panic with that error.
\<close>

fun extractHosts_loop :: "env \<Rightarrow> string list \<Rightarrow> string list \<Rightarrow> go_panic + string list" where
  "extractHosts_loop env res [] = Inr res"
| "extractHosts_loop env res (a # addrs) =
     (case SplitHostPort env a ''0'' of
        Inl err \<Rightarrow> Inl (PanicErr err)
      | Inr (hostname, port) \<Rightarrow>
          extractHosts_loop env (if found_in res hostname then res else res @ [hostname]) addrs)"

definition extractHosts :: "env \<Rightarrow> string list \<Rightarrow> go_panic + string list" where
  "extractHosts env addrs = extractHosts_loop env [] addrs"

subsection \<open>One service bundle\<close>

text \<open>
  The methods of \<^verbatim>\<open>ServiceCertificateBundle\<close> take the bundle and the world and
  return them updated. An assignment \<^verbatim>\<open>sb.F, err = load(...)\<close> stores nil in the field
  when the load fails.
\<close>

definition loadCACertAndKey ::
  "path \<Rightarrow> path \<Rightarrow> ServiceCertificateBundle \<Rightarrow> world
    \<Rightarrow> go_error option \<times> ServiceCertificateBundle" where
  "loadCACertAndKey certPath keyPath sb w =
     (case loadCertificateFile w certPath of
        Inl err \<Rightarrow> (Some err, sb\<lparr>CACertificate := None\<rparr>)
      | Inr cert \<Rightarrow>
          (case loadKeyFile w keyPath of
             Inl err \<Rightarrow> (Some err, sb\<lparr>CACertificate := Some cert, CAKey := None\<rparr>)
           | Inr key \<Rightarrow> (None, sb\<lparr>CACertificate := Some cert, CAKey := Some key\<rparr>)))"

definition createServiceCA ::
  "env \<Rightarrow> path \<Rightarrow> path \<Rightarrow> Duration \<Rightarrow> ServiceCertificateBundle \<Rightarrow> world
    \<Rightarrow> outcome \<times> ServiceCertificateBundle \<times> world" where
  "createServiceCA env caCertPath caKeyPath initLifespan sb w =
     (case CreateCACertAndKey env (entropy w) initLifespan (caCommonName env) of
        Inl err \<Rightarrow> (Err err, sb, w\<lparr>entropy := Suc (entropy w)\<rparr>)
      | Inr (caCert, caKey) \<Rightarrow>
          (let sb1 = sb\<lparr>CACertificate := Some (pem_EncodeToMemory env caCert),
                         CAKey := Some (pem_EncodeToMemory env caKey)\<rparr>;
               w1 = w\<lparr>entropy := Suc (entropy w)\<rparr>
           in case writeCertificateFile env caCertPath (Some caCert) False w1 of
                (Ok, w2) \<Rightarrow>
                  (case writeKeyFile env caKeyPath (Some caKey) False w2 of
                     (oc, w3) \<Rightarrow> (oc, sb1, w3))
              | (oc, w2) \<Rightarrow> (oc, sb1, w2)))"

text \<open>
  Lines 173 to 210 of \<^verbatim>\<open>loadOrCreateServiceCertificates\<close>, which three branches of
  the function reach: with the CA of the bundle, create the service certificate and
  key, store them in the bundle and write them without overwriting.
\<close>

definition createServiceCertFromCA ::
  "env \<Rightarrow> path \<Rightarrow> path \<Rightarrow> Duration \<Rightarrow> string \<Rightarrow> string list \<Rightarrow> bool
    \<Rightarrow> ServiceCertificateBundle \<Rightarrow> world \<Rightarrow> outcome \<times> ServiceCertificateBundle \<times> world" where
  "createServiceCertFromCA env serviceCertPath serviceKeyPath serviceCertLifespan commonName
       hostnames serviceCertIsAlsoValidAsClient sb w =
     (case PEMToCertificates env (CACertificate sb) of
        Inl err \<Rightarrow> (Err (Wrap err ''error when decoding PEM CACertificate''), sb, w)
      | Inr caCertPEM \<Rightarrow>
          (case pem_Decode env (CAKey sb) of
             (None, rest) \<Rightarrow> (Err (New ''error when decoding PEM CAKey''), sb, w)
           | (Some caKeyPEM, rest) \<Rightarrow>
               if length rest > 0 then (Err (New ''error when decoding PEM CAKey''), sb, w)
               else
                 (case caCertPEM of
                    [] \<Rightarrow> (Panic IndexOutOfRange, sb, w)
                  | caCert0 # _ \<Rightarrow>
                      (case CreateServiceCertAndKey env (entropy w) serviceCertLifespan commonName
                              hostnames caCert0 caKeyPEM serviceCertIsAlsoValidAsClient of
                         Inl err \<Rightarrow>
                           (Err (Wrap err ''failed to create Service Cert and Key''), sb,
                            w\<lparr>entropy := Suc (entropy w)\<rparr>)
                       | Inr (hostCert, hostKey) \<Rightarrow>
                           (let sb1 = sb\<lparr>HostCertificate := Some (pem_EncodeToMemory env hostCert),
                                          HostKey := Some (pem_EncodeToMemory env hostKey)\<rparr>;
                                w1 = w\<lparr>entropy := Suc (entropy w)\<rparr>
                            in case writeCertificateFile env serviceCertPath (Some hostCert) False w1 of
                                 (Ok, w2) \<Rightarrow>
                                   (case writeKeyFile env serviceKeyPath (Some hostKey) False w2 of
                                      (oc, w3) \<Rightarrow> (oc, sb1, w3))
                               | (oc, w2) \<Rightarrow> (oc, sb1, w2))))))"

definition loadOrCreateServiceCertificates ::
  "env \<Rightarrow> path \<Rightarrow> path \<Rightarrow> path \<Rightarrow> path \<Rightarrow> Duration \<Rightarrow> Duration \<Rightarrow> string \<Rightarrow> string
    \<Rightarrow> string list \<Rightarrow> bool \<Rightarrow> ServiceCertificateBundle \<Rightarrow> world
    \<Rightarrow> outcome \<times> ServiceCertificateBundle \<times> world" where
  "loadOrCreateServiceCertificates env serviceCertPath serviceKeyPath caCertPath caKeyPath
       serviceCertLifespan caCertLifespan commonName serviceName hostnames
       serviceCertIsAlsoValidAsClient sb w =
     (case loadCertificateFile w serviceCertPath of
        Inr cert \<Rightarrow>
          (case loadKeyFile w serviceKeyPath of
             Inl err \<Rightarrow>
               (if IsNotExist err
                then (Err (Wrapf err
                             ''failed to load service certificate key for %q expected key at %q''
                             [serviceCertPath, serviceKeyPath]),
                      sb\<lparr>HostCertificate := Some cert, HostKey := None\<rparr>, w)
                else (Err (Wrap err ''something went wrong loading service key''),
                      sb\<lparr>HostCertificate := Some cert, HostKey := None\<rparr>, w))
           | Inr key \<Rightarrow> (Ok, sb\<lparr>HostCertificate := Some cert, HostKey := Some key\<rparr>, w))
      | Inl _ \<Rightarrow>
          (case loadCertificateFile w caCertPath of
             Inr caCert \<Rightarrow>
               (case loadKeyFile w caKeyPath of
                  Inl err \<Rightarrow>
                    (Err (Wrapf err
                            ''loaded service CA cert but failed to load service CA key file: %q''
                            [caKeyPath]),
                     sb\<lparr>HostCertificate := None, CACertificate := Some caCert, CAKey := None\<rparr>, w)
                | Inr caKey \<Rightarrow>
                    createServiceCertFromCA env serviceCertPath serviceKeyPath serviceCertLifespan
                      commonName hostnames serviceCertIsAlsoValidAsClient
                      (sb\<lparr>HostCertificate := None, CACertificate := Some caCert,
                          CAKey := Some caKey\<rparr>) w)
           | Inl err \<Rightarrow>
               if IsNotExist err
               then
                 (case createServiceCA env caCertPath caKeyPath caCertLifespan
                         (sb\<lparr>HostCertificate := None, CACertificate := None\<rparr>) w of
                    (Ok, sb1, w1) \<Rightarrow>
                      createServiceCertFromCA env serviceCertPath serviceKeyPath
                        serviceCertLifespan commonName hostnames serviceCertIsAlsoValidAsClient
                        sb1 w1
                  | (Err e, sb1, w1) \<Rightarrow> (Err (Wrap e ''failed to create Service CA''), sb1, w1)
                  | (Panic p, sb1, w1) \<Rightarrow> (Panic p, sb1, w1))
               else
                 createServiceCertFromCA env serviceCertPath serviceKeyPath serviceCertLifespan
                   commonName hostnames serviceCertIsAlsoValidAsClient
                   (sb\<lparr>HostCertificate := None, CACertificate := None\<rparr>) w))"

text \<open>
  \<^verbatim>\<open>writeCAOrFail\<close> decodes each field and writes the block when the field is not nil;
  the bundle is not changed.
\<close>

definition writeCAOrFail ::
  "env \<Rightarrow> path \<Rightarrow> path \<Rightarrow> ServiceCertificateBundle \<Rightarrow> world \<Rightarrow> outcome \<times> world" where
  "writeCAOrFail env certPath keyPath sb w =
     (case (if CACertificate sb \<noteq> None
            then writeCertificateFile env certPath (fst (pem_Decode env (CACertificate sb))) False w
            else (Ok, w)) of
        (Ok, w1) \<Rightarrow>
          (if CAKey sb \<noteq> None
           then writeKeyFile env keyPath (fst (pem_Decode env (CAKey sb))) False w1
           else (Ok, w1))
      | (oc, w1) \<Rightarrow> (oc, w1))"

definition loadCACertAndKeyIfExists ::
  "path \<Rightarrow> path \<Rightarrow> ServiceCertificateBundle \<Rightarrow> world
    \<Rightarrow> go_error option \<times> ServiceCertificateBundle" where
  "loadCACertAndKeyIfExists certPath keyPath sb w =
     (case loadCACertAndKey certPath keyPath sb w of
        (Some err, sb1) \<Rightarrow> (if IsNotExist err then (None, sb1) else (Some err, sb1))
      | (None, sb1) \<Rightarrow> (None, sb1))"

text \<open>
  \<^verbatim>\<open>rotateServiceCert\<close> generates a new pair from the CA of the bundle and overwrites
  the two files; both checks that a file is about to be overwritten look at the
  certificate path.
\<close>

definition rotateServiceCert ::
  "env \<Rightarrow> path \<Rightarrow> path \<Rightarrow> Duration \<Rightarrow> string \<Rightarrow> string \<Rightarrow> string list \<Rightarrow> bool
    \<Rightarrow> ServiceCertificateBundle \<Rightarrow> world \<Rightarrow> outcome \<times> world" where
  "rotateServiceCert env certPath keyPath serviceCertLifespan commonName serviceString hostnames
       serviceCertIsAlsoValidAsClient sb w =
     (case PEMToCertificates env (CACertificate sb) of
        Inl err \<Rightarrow> (Err (Wrap err ''error when decoding PEM CACertificate''), w)
      | Inr caCertPEM \<Rightarrow>
          (case pem_Decode env (CAKey sb) of
             (None, rest) \<Rightarrow> (Err (New ''error when decoding PEM CAKey''), w)
           | (Some caKeyPEM, rest) \<Rightarrow>
               if length rest > 0 then (Err (New ''error when decoding PEM CAKey''), w)
               else
                 (case caCertPEM of
                    [] \<Rightarrow> (Panic IndexOutOfRange, w)
                  | caCert0 # _ \<Rightarrow>
                      (case CreateServiceCertAndKey env (entropy w) serviceCertLifespan commonName
                              hostnames caCert0 caKeyPEM serviceCertIsAlsoValidAsClient of
                         Inl err \<Rightarrow>
                           (Err (Wrapf err ''failed to rotate certs for %q'' [serviceString]),
                            w\<lparr>entropy := Suc (entropy w)\<rparr>)
                       | Inr (certPEM, keyPEM) \<Rightarrow>
                           (let w1 = w\<lparr>entropy := Suc (entropy w)\<rparr>
                            in case Stat w1 certPath of
                                 Inl err \<Rightarrow>
                                   (Err (Wrapf err ''failed to rotate certs for %q'' [serviceString]),
                                    w1)
                               | Inr _ \<Rightarrow>
                                   (case writeCertificateFile env certPath (Some certPEM) True w1 of
                                      (Err err, w2) \<Rightarrow>
                                        (Err (Wrapf err ''failed to rotate certs for %q''
                                                [serviceString]), w2)
                                    | (Panic p, w2) \<Rightarrow> (Panic p, w2)
                                    | (Ok, w2) \<Rightarrow>
                                        (case Stat w2 certPath of
                                           Inl err \<Rightarrow>
                                             (Err (Wrapf err ''failed to rotate certs for %q''
                                                     [serviceString]), w2)
                                         | Inr _ \<Rightarrow>
                                             (case writeKeyFile env keyPath (Some keyPEM) True w2 of
                                                (Err err, w3) \<Rightarrow>
                                                  (Err (Wrapf err ''failed to rotate certs for %q''
                                                          [serviceString]), w3)
                                              | (oc, w3) \<Rightarrow> (oc, w3)))))))))"

subsection \<open>The bundle of the five services\<close>

text \<open>
  \<^verbatim>\<open>InitializeFromConfig\<close>: the guard on the inter-node certificate, the host names of
  the three address pairs, the certs directory, then the cascade of each service in
  the order of the source. \<^verbatim>\<open>httpAddrs[0]\<close> is read when the arguments of the last call
  are evaluated.
\<close>

definition InitializeFromConfig ::
  "env \<Rightarrow> Config \<Rightarrow> CertificateBundle \<Rightarrow> world \<Rightarrow> outcome \<times> CertificateBundle \<times> world" where
  "InitializeFromConfig env c b w =
     (let cl = MakeLocator env (SSLCertsDir c) in
      case FileExists w (NodeCertPath cl) of
        Inl err \<Rightarrow> (Err err, b, w)
      | Inr True \<Rightarrow> (Err (New ''inter-node certificate already present''), b, w)
      | Inr False \<Rightarrow>
      (case extractHosts env [Addr c, AdvertiseAddr c] of
        Inl p \<Rightarrow> (Panic p, b, w)
      | Inr rpcAddrs \<Rightarrow>
      (case (if SplitListenSQL c then extractHosts env [SQLAddr c, SQLAdvertiseAddr c]
             else Inr rpcAddrs) of
        Inl p \<Rightarrow> (Panic p, b, w)
      | Inr sqlAddrs \<Rightarrow>
      (case extractHosts env [HTTPAddr c, HTTPAdvertiseAddr c] of
        Inl p \<Rightarrow> (Panic p, b, w)
      | Inr httpAddrs \<Rightarrow>
      (case EnsureCertsDirectory cl w of
        Some err \<Rightarrow> (Err err, b, w)
      | None \<Rightarrow>
      (case loadOrCreateServiceCertificates env (NodeCertPath cl) (NodeKeyPath cl)
              (CACertPath cl) (CAKeyPath cl) defaultCertLifetime defaultCALifetime
              (NodeUser env) serviceNameInterNode rpcAddrs True (InterNode b) w of
        (Err e, sb1, w1) \<Rightarrow>
          (Err (Wrap e ''failed to load or create InterNode certificates''),
           b\<lparr>InterNode := sb1\<rparr>, w1)
      | (Panic p, sb1, w1) \<Rightarrow> (Panic p, b\<lparr>InterNode := sb1\<rparr>, w1)
      | (Ok, sb1, w1) \<Rightarrow>
      (case loadOrCreateServiceCertificates env (ClientNodeCertPath cl) (ClientNodeKeyPath cl)
              (ClientCACertPath cl) (ClientCAKeyPath cl) defaultCertLifetime defaultCALifetime
              (NodeUser env) serviceNameUserAuth [] True (UserAuth b) w1 of
        (Err e, sb2, w2) \<Rightarrow>
          (Err (Wrap e ''failed to load or create User auth certificate(s)''),
           b\<lparr>InterNode := sb1, UserAuth := sb2\<rparr>, w2)
      | (Panic p, sb2, w2) \<Rightarrow> (Panic p, b\<lparr>InterNode := sb1, UserAuth := sb2\<rparr>, w2)
      | (Ok, sb2, w2) \<Rightarrow>
      (case loadOrCreateServiceCertificates env (SQLServiceCertPath cl) (SQLServiceKeyPath cl)
              (SQLServiceCACertPath cl) (SQLServiceCAKeyPath cl) defaultCertLifetime
              defaultCALifetime (NodeUser env) serviceNameSQL sqlAddrs False (SQLService b) w2 of
        (Err e, sb3, w3) \<Rightarrow>
          (Err (Wrap e ''failed to load or create SQL service certificate(s)''),
           b\<lparr>InterNode := sb1, UserAuth := sb2, SQLService := sb3\<rparr>, w3)
      | (Panic p, sb3, w3) \<Rightarrow>
          (Panic p, b\<lparr>InterNode := sb1, UserAuth := sb2, SQLService := sb3\<rparr>, w3)
      | (Ok, sb3, w3) \<Rightarrow>
      (case loadOrCreateServiceCertificates env (RPCServiceCertPath cl) (RPCServiceKeyPath cl)
              (RPCServiceCACertPath cl) (RPCServiceCAKeyPath cl) defaultCertLifetime
              defaultCALifetime (NodeUser env) serviceNameRPC rpcAddrs False (RPCService b) w3 of
        (Err e, sb4, w4) \<Rightarrow>
          (Err (Wrap e ''failed to load or create RPC service certificate(s)''),
           b\<lparr>InterNode := sb1, UserAuth := sb2, SQLService := sb3, RPCService := sb4\<rparr>, w4)
      | (Panic p, sb4, w4) \<Rightarrow>
          (Panic p, b\<lparr>InterNode := sb1, UserAuth := sb2, SQLService := sb3, RPCService := sb4\<rparr>,
           w4)
      | (Ok, sb4, w4) \<Rightarrow>
      (case httpAddrs of
        [] \<Rightarrow>
          (Panic IndexOutOfRange,
           b\<lparr>InterNode := sb1, UserAuth := sb2, SQLService := sb3, RPCService := sb4\<rparr>, w4)
      | httpAddr0 # _ \<Rightarrow>
      (case loadOrCreateServiceCertificates env (UICertPath cl) (UIKeyPath cl)
              (UICACertPath cl) (UICAKeyPath cl) defaultCertLifetime defaultCALifetime
              httpAddr0 serviceNameUI httpAddrs False (AdminUIService b) w4 of
        (Err e, sb5, w5) \<Rightarrow>
          (Err (Wrap e ''failed to load or create Admin UI service certificate(s)''),
           b\<lparr>InterNode := sb1, UserAuth := sb2, SQLService := sb3, RPCService := sb4,
             AdminUIService := sb5\<rparr>, w5)
      | (oc, sb5, w5) \<Rightarrow>
          (oc, b\<lparr>InterNode := sb1, UserAuth := sb2, SQLService := sb3, RPCService := sb4,
                 AdminUIService := sb5\<rparr>, w5))))))))))))"

text \<open>
  \<^verbatim>\<open>InitializeNodeFromBundle\<close>: the same guard, the certs directory, the five CAs of
  the received bundle written without overwriting, then \<^verbatim>\<open>InitializeFromConfig\<close>.
\<close>

definition InitializeNodeFromBundle ::
  "env \<Rightarrow> Config \<Rightarrow> CertificateBundle \<Rightarrow> world \<Rightarrow> outcome \<times> CertificateBundle \<times> world" where
  "InitializeNodeFromBundle env c b w =
     (let cl = MakeLocator env (SSLCertsDir c) in
      case FileExists w (NodeCertPath cl) of
        Inl err \<Rightarrow> (Err err, b, w)
      | Inr True \<Rightarrow> (Err (New ''inter-node certificate already present''), b, w)
      | Inr False \<Rightarrow>
      (case EnsureCertsDirectory cl w of
        Some err \<Rightarrow> (Err err, b, w)
      | None \<Rightarrow>
      (case writeCAOrFail env (CACertPath cl) (CAKeyPath cl) (InterNode b) w of
        (Err e, w1) \<Rightarrow> (Err (Wrap e ''failed to write InterNodeCA to disk''), b, w1)
      | (Panic p, w1) \<Rightarrow> (Panic p, b, w1)
      | (Ok, w1) \<Rightarrow>
      (case writeCAOrFail env (ClientCACertPath cl) (ClientCAKeyPath cl) (UserAuth b) w1 of
        (Err e, w2) \<Rightarrow> (Err (Wrap e ''failed to write ClientCA to disk''), b, w2)
      | (Panic p, w2) \<Rightarrow> (Panic p, b, w2)
      | (Ok, w2) \<Rightarrow>
      (case writeCAOrFail env (SQLServiceCACertPath cl) (SQLServiceCAKeyPath cl)
              (SQLService b) w2 of
        (Err e, w3) \<Rightarrow> (Err (Wrap e ''failed to write SQLServiceCA to disk''), b, w3)
      | (Panic p, w3) \<Rightarrow> (Panic p, b, w3)
      | (Ok, w3) \<Rightarrow>
      (case writeCAOrFail env (RPCServiceCACertPath cl) (RPCServiceCAKeyPath cl)
              (RPCService b) w3 of
        (Err e, w4) \<Rightarrow> (Err (Wrap e ''failed to write RPCServiceCA to disk''), b, w4)
      | (Panic p, w4) \<Rightarrow> (Panic p, b, w4)
      | (Ok, w4) \<Rightarrow>
      (case writeCAOrFail env (UICACertPath cl) (UICAKeyPath cl) (AdminUIService b) w4 of
        (Err e, w5) \<Rightarrow> (Err (Wrap e ''failed to write AdminUIServiceCA to disk''), b, w5)
      | (Panic p, w5) \<Rightarrow> (Panic p, b, w5)
      | (Ok, w5) \<Rightarrow>
      (case InitializeFromConfig env c b w5 of
        (Err e, b6, w6) \<Rightarrow>
          (Err (Wrap e ''failed to initialize host certs after writing CAs to disk''), b6, w6)
      | (oc, b6, w6) \<Rightarrow> (oc, b6, w6)))))))))"

text \<open>The zero value of a Go struct of byte slices: every field is nil.\<close>

definition zeroServiceCertificateBundle :: ServiceCertificateBundle where
  "zeroServiceCertificateBundle =
     \<lparr>CACertificate = None, CAKey = None, HostCertificate = None, HostKey = None\<rparr>"

definition zeroCertificateBundle :: CertificateBundle where
  "zeroCertificateBundle =
     \<lparr>InterNode = zeroServiceCertificateBundle, UserAuth = zeroServiceCertificateBundle,
      SQLService = zeroServiceCertificateBundle, RPCService = zeroServiceCertificateBundle,
      AdminUIService = zeroServiceCertificateBundle\<rparr>"

definition collectLocalCABundle ::
  "env \<Rightarrow> string \<Rightarrow> world \<Rightarrow> CertificateBundle \<times> go_error option" where
  "collectLocalCABundle env dir w =
     (let cl = MakeLocator env dir; b = zeroCertificateBundle in
      case loadCACertAndKeyIfExists (CACertPath cl) (CAKeyPath cl) (InterNode b) w of
        (Some err, sb1) \<Rightarrow>
          (b\<lparr>InterNode := sb1\<rparr>, Some (Wrap err ''error loading InterNode CA cert and/or key''))
      | (None, sb1) \<Rightarrow>
      (case loadCACertAndKeyIfExists (ClientCACertPath cl) (ClientCAKeyPath cl) (UserAuth b) w of
        (Some err, sb2) \<Rightarrow>
          (b\<lparr>InterNode := sb1, UserAuth := sb2\<rparr>,
           Some (Wrap err ''error loading UserAuth CA cert and/or key''))
      | (None, sb2) \<Rightarrow>
      (case loadCACertAndKeyIfExists (SQLServiceCACertPath cl) (SQLServiceCAKeyPath cl)
              (SQLService b) w of
        (Some err, sb3) \<Rightarrow>
          (b\<lparr>InterNode := sb1, UserAuth := sb2, SQLService := sb3\<rparr>,
           Some (Wrap err ''error loading SQL CA cert and/or key''))
      | (None, sb3) \<Rightarrow>
      (case loadCACertAndKeyIfExists (RPCServiceCACertPath cl) (RPCServiceCAKeyPath cl)
              (RPCService b) w of
        (Some err, sb4) \<Rightarrow>
          (b\<lparr>InterNode := sb1, UserAuth := sb2, SQLService := sb3, RPCService := sb4\<rparr>,
           Some (Wrap err ''error loading RPC CA cert and/or key''))
      | (None, sb4) \<Rightarrow>
      (case loadCACertAndKeyIfExists (UICACertPath cl) (UICAKeyPath cl) (AdminUIService b) w of
        (Some err, sb5) \<Rightarrow>
          (b\<lparr>InterNode := sb1, UserAuth := sb2, SQLService := sb3, RPCService := sb4,
             AdminUIService := sb5\<rparr>,
           Some (Wrap err ''error loading AdminUI CA cert and/or key''))
      | (None, sb5) \<Rightarrow>
          (b\<lparr>InterNode := sb1, UserAuth := sb2, SQLService := sb3, RPCService := sb4,
             AdminUIService := sb5\<rparr>, None))))))"

text \<open>
  \<^verbatim>\<open>rotateGeneratedCerts\<close>: the local CAs, the host names, then a new host pair for each
  service whose CA certificate was found, in the order of the source; the first
  failure ends the call.
\<close>

definition rotateGeneratedCerts :: "env \<Rightarrow> Config \<Rightarrow> world \<Rightarrow> outcome \<times> world" where
  "rotateGeneratedCerts env c w =
     (let cl = MakeLocator env (SSLCertsDir c) in
      case collectLocalCABundle env (SSLCertsDir c) w of
        (b, Some err) \<Rightarrow>
          (Err (Wrap err ''failed to load local CAs for certificate rotation''), w)
      | (b, None) \<Rightarrow>
      (case extractHosts env [Addr c, AdvertiseAddr c] of
        Inl p \<Rightarrow> (Panic p, w)
      | Inr rpcAddrs \<Rightarrow>
      (case (if SplitListenSQL c then extractHosts env [SQLAddr c, SQLAdvertiseAddr c]
             else Inr rpcAddrs) of
        Inl p \<Rightarrow> (Panic p, w)
      | Inr sqlAddrs \<Rightarrow>
      (case extractHosts env [HTTPAddr c, HTTPAdvertiseAddr c] of
        Inl p \<Rightarrow> (Panic p, w)
      | Inr httpAddrs \<Rightarrow>
      (case (if CACertificate (InterNode b) \<noteq> None
             then rotateServiceCert env (NodeCertPath cl) (NodeKeyPath cl) defaultCertLifetime
                    (NodeUser env) serviceNameInterNode rpcAddrs True (InterNode b) w
             else (Ok, w)) of
        (Err e, w1) \<Rightarrow> (Err (Wrap e ''failed to rotate InterNode cert''), w1)
      | (Panic p, w1) \<Rightarrow> (Panic p, w1)
      | (Ok, w1) \<Rightarrow>
      (case (if CACertificate (UserAuth b) \<noteq> None
             then rotateServiceCert env (ClientNodeCertPath cl) (ClientNodeKeyPath cl)
                    defaultCertLifetime (NodeUser env) serviceNameUserAuth [] True (UserAuth b) w1
             else (Ok, w1)) of
        (Err e, w2) \<Rightarrow> (Err (Wrap e ''failed to rotate InterNode cert''), w2)
      | (Panic p, w2) \<Rightarrow> (Panic p, w2)
      | (Ok, w2) \<Rightarrow>
      (case (if CACertificate (SQLService b) \<noteq> None
             then rotateServiceCert env (SQLServiceCertPath cl) (SQLServiceKeyPath cl)
                    defaultCertLifetime (NodeUser env) serviceNameSQL sqlAddrs False
                    (SQLService b) w2
             else (Ok, w2)) of
        (Err e, w3) \<Rightarrow> (Err (Wrap e ''failed to rotate SQLService cert''), w3)
      | (Panic p, w3) \<Rightarrow> (Panic p, w3)
      | (Ok, w3) \<Rightarrow>
      (case (if CACertificate (RPCService b) \<noteq> None
             then rotateServiceCert env (RPCServiceCertPath cl) (RPCServiceKeyPath cl)
                    defaultCertLifetime (NodeUser env) serviceNameRPC rpcAddrs False
                    (RPCService b) w3
             else (Ok, w3)) of
        (Err e, w4) \<Rightarrow> (Err (Wrap e ''failed to rotate RPCService cert''), w4)
      | (Panic p, w4) \<Rightarrow> (Panic p, w4)
      | (Ok, w4) \<Rightarrow>
      (case (if CACertificate (AdminUIService b) \<noteq> None
             then (case httpAddrs of
                     [] \<Rightarrow> (Panic IndexOutOfRange, w4)
                   | httpAddr0 # _ \<Rightarrow>
                       rotateServiceCert env (UICertPath cl) (UIKeyPath cl) defaultCertLifetime
                         httpAddr0 serviceNameUI httpAddrs False (AdminUIService b) w4)
             else (Ok, w4)) of
        (Err e, w5) \<Rightarrow> (Err (Wrap e ''failed to rotate AdminUIService cert''), w5)
      | (oc, w5) \<Rightarrow> (oc, w5))))))))))"

subsection \<open>Slots and their paths\<close>

text \<open>
  The five services as an enumeration, with the four paths of each service as the
  functions above pass them, to state properties of every slot.
\<close>

datatype slot = SlotInterNode | SlotUserAuth | SlotSQLService | SlotRPCService | SlotAdminUIService

fun caCertPathOf :: "Locator \<Rightarrow> slot \<Rightarrow> path" where
  "caCertPathOf cl SlotInterNode = CACertPath cl"
| "caCertPathOf cl SlotUserAuth = ClientCACertPath cl"
| "caCertPathOf cl SlotSQLService = SQLServiceCACertPath cl"
| "caCertPathOf cl SlotRPCService = RPCServiceCACertPath cl"
| "caCertPathOf cl SlotAdminUIService = UICACertPath cl"

fun caKeyPathOf :: "Locator \<Rightarrow> slot \<Rightarrow> path" where
  "caKeyPathOf cl SlotInterNode = CAKeyPath cl"
| "caKeyPathOf cl SlotUserAuth = ClientCAKeyPath cl"
| "caKeyPathOf cl SlotSQLService = SQLServiceCAKeyPath cl"
| "caKeyPathOf cl SlotRPCService = RPCServiceCAKeyPath cl"
| "caKeyPathOf cl SlotAdminUIService = UICAKeyPath cl"

fun hostCertPathOf :: "Locator \<Rightarrow> slot \<Rightarrow> path" where
  "hostCertPathOf cl SlotInterNode = NodeCertPath cl"
| "hostCertPathOf cl SlotUserAuth = ClientNodeCertPath cl"
| "hostCertPathOf cl SlotSQLService = SQLServiceCertPath cl"
| "hostCertPathOf cl SlotRPCService = RPCServiceCertPath cl"
| "hostCertPathOf cl SlotAdminUIService = UICertPath cl"

fun hostKeyPathOf :: "Locator \<Rightarrow> slot \<Rightarrow> path" where
  "hostKeyPathOf cl SlotInterNode = NodeKeyPath cl"
| "hostKeyPathOf cl SlotUserAuth = ClientNodeKeyPath cl"
| "hostKeyPathOf cl SlotSQLService = SQLServiceKeyPath cl"
| "hostKeyPathOf cl SlotRPCService = RPCServiceKeyPath cl"
| "hostKeyPathOf cl SlotAdminUIService = UIKeyPath cl"

definition slots :: "slot list" where
  "slots = [SlotInterNode, SlotUserAuth, SlotSQLService, SlotRPCService, SlotAdminUIService]"

definition caPaths :: "Locator \<Rightarrow> path list" where
  "caPaths cl = map (caCertPathOf cl) slots @ map (caKeyPathOf cl) slots"

definition hostPaths :: "Locator \<Rightarrow> path list" where
  "hostPaths cl = map (hostCertPathOf cl) slots @ map (hostKeyPathOf cl) slots"

text \<open>
  The generator of host certificates never issues, from draw \<open>n\<close> on, a certificate or a
  key whose encoding is the content of a file of the world: the idealisation of keys
  and serial numbers drawn at random.
\<close>

definition issues_fresh :: "env \<Rightarrow> world \<Rightarrow> bool" where
  "issues_fresh env w \<longleftrightarrow>
     (\<forall>n lifespan cn hosts caCert caKey dual cert key p.
        entropy w \<le> n \<longrightarrow>
        CreateServiceCertAndKey env n lifespan cn hosts caCert caKey dual = Inr (cert, key) \<longrightarrow>
        files w p \<noteq> Some (pem_EncodeToMemory env cert) \<and>
        files w p \<noteq> Some (pem_EncodeToMemory env key))"

subsection \<open>An environment for the examples\<close>

text \<open>
  Modelled from the spec: \<^verbatim>\<open>addr.SplitHostPort\<close> is not under src/; a "host:port"
  string splits at its colon into the host name and the port, a string without a
  colon, or with an empty port, takes the default port, and a string with more than
  one colon is malformed. Bracketed IPv6 literals are left out.
\<close>

definition SplitHostPort_spec :: "string \<Rightarrow> string \<Rightarrow> go_error + (string \<times> string)" where
  "SplitHostPort_spec v defaultPort =
     (if count_list v (CHR '':'') = 0 then Inr (v, defaultPort)
      else if count_list v (CHR '':'') = 1
      then Inr (takeWhile (\<lambda>ch. ch \<noteq> CHR '':'') v,
                (case tl (dropWhile (\<lambda>ch. ch \<noteq> CHR '':'') v) of
                   [] \<Rightarrow> defaultPort
                 | port \<Rightarrow> port))
      else Inl (New (''invalid address format: '' @ v)))"

text \<open>
  A small codec and generator for the examples: every non-empty byte string is one
  block, and the material of draw \<open>n\<close> carries \<open>n\<close> stars.
\<close>

definition demo_block :: "bytes \<Rightarrow> pem_Block" where
  "demo_block bs = \<lparr>Type = ''DEMO'', Headers = [], Bytes = bs\<rparr>"

definition demo_Decode :: "bytes option \<Rightarrow> pem_Block option \<times> bytes" where
  "demo_Decode data =
     (case data of
        None \<Rightarrow> (None, [])
      | Some bs \<Rightarrow> (if bs = [] then (None, []) else (Some (demo_block bs), [])))"

definition demo_PEMToCertificates :: "bytes option \<Rightarrow> go_error + pem_Block list" where
  "demo_PEMToCertificates data =
     (case data of
        None \<Rightarrow> Inr []
      | Some bs \<Rightarrow> (if bs = [] then Inr [] else Inr [demo_block bs]))"

definition demo_Locator :: "string \<Rightarrow> Locator" where
  "demo_Locator dir =
     \<lparr>certsDir = dir,
      CACertPath = dir @ ''/ca.crt'', CAKeyPath = dir @ ''/ca.key'',
      NodeCertPath = dir @ ''/node.crt'', NodeKeyPath = dir @ ''/node.key'',
      ClientCACertPath = dir @ ''/ca-client.crt'', ClientCAKeyPath = dir @ ''/ca-client.key'',
      ClientNodeCertPath = dir @ ''/client.node.crt'',
      ClientNodeKeyPath = dir @ ''/client.node.key'',
      SQLServiceCACertPath = dir @ ''/ca-sql.crt'', SQLServiceCAKeyPath = dir @ ''/ca-sql.key'',
      SQLServiceCertPath = dir @ ''/sql.crt'', SQLServiceKeyPath = dir @ ''/sql.key'',
      RPCServiceCACertPath = dir @ ''/ca-rpc.crt'', RPCServiceCAKeyPath = dir @ ''/ca-rpc.key'',
      RPCServiceCertPath = dir @ ''/rpc.crt'', RPCServiceKeyPath = dir @ ''/rpc.key'',
      UICACertPath = dir @ ''/ca-ui.crt'', UICAKeyPath = dir @ ''/ca-ui.key'',
      UICertPath = dir @ ''/ui.crt'', UIKeyPath = dir @ ''/ui.key''\<rparr>"

definition demo_env :: env where
  "demo_env =
     \<lparr>MakeLocator = demo_Locator,
      SplitHostPort = SplitHostPort_spec,
      PEMToCertificates = demo_PEMToCertificates,
      pem_Decode = demo_Decode,
      pem_EncodeToMemory = Bytes,
      CreateCACertAndKey =
        (\<lambda>n lifespan cn.
           Inr (demo_block (''ca-cert '' @ replicate n (CHR ''*'')),
                demo_block (''ca-key '' @ replicate n (CHR ''*'')))),
      CreateServiceCertAndKey =
        (\<lambda>n lifespan cn hosts caCert caKey dual.
           Inr (demo_block (''cert '' @ replicate n (CHR ''*'')),
                demo_block (''key '' @ replicate n (CHR ''*'')))),
      caCommonName = ''Cockroach CA'',
      NodeUser = ''node''\<rparr>"

definition demo_config :: Config where
  "demo_config =
     \<lparr>SSLCertsDir = ''d'', Addr = ''10.0.0.1:26257'', AdvertiseAddr = ''n1:26257'',
      SplitListenSQL = False, SQLAddr = ''10.0.0.1:26258'', SQLAdvertiseAddr = ''n1:26258'',
      HTTPAddr = ''10.0.0.1:8080'', HTTPAdvertiseAddr = ''n1:8080''\<rparr>"

definition empty_world :: world where
  "empty_world =
     \<lparr>files = Map.empty, stat_fault = Map.empty, read_fault = Map.empty,
      write_fault = Map.empty, mkdir_fault = None, written = [], entropy = 0\<rparr>"

subsection \<open>Facts about worlds, for the proofs\<close>

text \<open>
  \<open>grows w w'\<close>: the status faults are the same and every file of \<open>w\<close> is a file of \<open>w'\<close>.
  \<open>same_outside P w w'\<close>: the files outside the paths \<open>P\<close> have the same content.
  \<open>issued env n0\<close>: the encodings of the certificates and keys that the generator of host
  certificates issues from draw \<open>n0\<close> on; \<open>new_at env n0 w p\<close>: the file \<open>p\<close> holds one.
\<close>

definition grows :: "world \<Rightarrow> world \<Rightarrow> bool" where
  "grows w w' \<longleftrightarrow>
     stat_fault w' = stat_fault w \<and> (\<forall>q. files w q \<noteq> None \<longrightarrow> files w' q \<noteq> None)"

definition same_outside :: "path set \<Rightarrow> world \<Rightarrow> world \<Rightarrow> bool" where
  "same_outside P w w' \<longleftrightarrow> (\<forall>q. q \<notin> P \<longrightarrow> files w' q = files w q)"

definition issued :: "env \<Rightarrow> nat \<Rightarrow> bytes set" where
  "issued env n0 =
     {b. \<exists>n lifespan cn hosts caCert caKey dual cert key.
           n0 \<le> n \<and>
           CreateServiceCertAndKey env n lifespan cn hosts caCert caKey dual = Inr (cert, key) \<and>
           (b = pem_EncodeToMemory env cert \<or> b = pem_EncodeToMemory env key)}"

definition new_at :: "env \<Rightarrow> nat \<Rightarrow> world \<Rightarrow> path \<Rightarrow> bool" where
  "new_at env n0 w p \<longleftrightarrow> (\<exists>b \<in> issued env n0. files w p = Some b)"

subsection \<open>The worlds of the examples\<close>

text \<open>The world and the bundle after the bootstrap of the example on the empty world.\<close>

definition demo_world1 :: world where
  "demo_world1 =
     \<lparr>files =
        [''d/ca.crt'' \<mapsto> ''ca-cert '', ''d/ca.key'' \<mapsto> ''ca-key '',
         ''d/node.crt'' \<mapsto> ''cert *'', ''d/node.key'' \<mapsto> ''key *'',
         ''d/ca-client.crt'' \<mapsto> ''ca-cert **'', ''d/ca-client.key'' \<mapsto> ''ca-key **'',
         ''d/client.node.crt'' \<mapsto> ''cert ***'', ''d/client.node.key'' \<mapsto> ''key ***'',
         ''d/ca-sql.crt'' \<mapsto> ''ca-cert ****'', ''d/ca-sql.key'' \<mapsto> ''ca-key ****'',
         ''d/sql.crt'' \<mapsto> ''cert *****'', ''d/sql.key'' \<mapsto> ''key *****'',
         ''d/ca-rpc.crt'' \<mapsto> ''ca-cert ******'', ''d/ca-rpc.key'' \<mapsto> ''ca-key ******'',
         ''d/rpc.crt'' \<mapsto> ''cert *******'', ''d/rpc.key'' \<mapsto> ''key *******'',
         ''d/ca-ui.crt'' \<mapsto> ''ca-cert ********'', ''d/ca-ui.key'' \<mapsto> ''ca-key ********'',
         ''d/ui.crt'' \<mapsto> ''cert *********'', ''d/ui.key'' \<mapsto> ''key *********''],
      stat_fault = Map.empty, read_fault = Map.empty, write_fault = Map.empty,
      mkdir_fault = None,
      written =
        [(''d/ca.crt'', 420), (''d/ca.key'', 384), (''d/node.crt'', 420),
         (''d/node.key'', 384), (''d/ca-client.crt'', 420), (''d/ca-client.key'', 384),
         (''d/client.node.crt'', 420), (''d/client.node.key'', 384), (''d/ca-sql.crt'', 420),
         (''d/ca-sql.key'', 384), (''d/sql.crt'', 420), (''d/sql.key'', 384),
         (''d/ca-rpc.crt'', 420), (''d/ca-rpc.key'', 384), (''d/rpc.crt'', 420),
         (''d/rpc.key'', 384), (''d/ca-ui.crt'', 420), (''d/ca-ui.key'', 384),
         (''d/ui.crt'', 420), (''d/ui.key'', 384)],
      entropy = 10\<rparr>"

definition demo_bundle1 :: CertificateBundle where
  "demo_bundle1 =
     \<lparr>InterNode =
        \<lparr>CACertificate = Some ''ca-cert '', CAKey = Some ''ca-key '',
         HostCertificate = Some ''cert *'', HostKey = Some ''key *''\<rparr>,
      UserAuth =
        \<lparr>CACertificate = Some ''ca-cert **'', CAKey = Some ''ca-key **'',
         HostCertificate = Some ''cert ***'', HostKey = Some ''key ***''\<rparr>,
      SQLService =
        \<lparr>CACertificate = Some ''ca-cert ****'', CAKey = Some ''ca-key ****'',
         HostCertificate = Some ''cert *****'', HostKey = Some ''key *****''\<rparr>,
      RPCService =
        \<lparr>CACertificate = Some ''ca-cert ******'', CAKey = Some ''ca-key ******'',
         HostCertificate = Some ''cert *******'', HostKey = Some ''key *******''\<rparr>,
      AdminUIService =
        \<lparr>CACertificate = Some ''ca-cert ********'', CAKey = Some ''ca-key ********'',
         HostCertificate = Some ''cert *********'', HostKey = Some ''key *********''\<rparr>\<rparr>"

text \<open>The world after the rotation that follows.\<close>

definition demo_world2 :: world where
  "demo_world2 =
     \<lparr>files =
        [''d/ca.crt'' \<mapsto> ''ca-cert '', ''d/ca.key'' \<mapsto> ''ca-key '',
         ''d/ca-client.crt'' \<mapsto> ''ca-cert **'', ''d/ca-client.key'' \<mapsto> ''ca-key **'',
         ''d/ca-sql.crt'' \<mapsto> ''ca-cert ****'', ''d/ca-sql.key'' \<mapsto> ''ca-key ****'',
         ''d/ca-rpc.crt'' \<mapsto> ''ca-cert ******'', ''d/ca-rpc.key'' \<mapsto> ''ca-key ******'',
         ''d/ca-ui.crt'' \<mapsto> ''ca-cert ********'', ''d/ca-ui.key'' \<mapsto> ''ca-key ********'',
         ''d/node.crt'' \<mapsto> ''cert **********'', ''d/node.key'' \<mapsto> ''key **********'',
         ''d/client.node.crt'' \<mapsto> ''cert ***********'', ''d/client.node.key'' \<mapsto> ''key ***********'',
         ''d/sql.crt'' \<mapsto> ''cert ************'', ''d/sql.key'' \<mapsto> ''key ************'',
         ''d/rpc.crt'' \<mapsto> ''cert *************'', ''d/rpc.key'' \<mapsto> ''key *************'',
         ''d/ui.crt'' \<mapsto> ''cert **************'', ''d/ui.key'' \<mapsto> ''key **************''],
      stat_fault = Map.empty, read_fault = Map.empty, write_fault = Map.empty,
      mkdir_fault = None,
      written =
        [(''d/ca.crt'', 420), (''d/ca.key'', 384), (''d/node.crt'', 420),
         (''d/node.key'', 384), (''d/ca-client.crt'', 420), (''d/ca-client.key'', 384),
         (''d/client.node.crt'', 420), (''d/client.node.key'', 384), (''d/ca-sql.crt'', 420),
         (''d/ca-sql.key'', 384), (''d/sql.crt'', 420), (''d/sql.key'', 384),
         (''d/ca-rpc.crt'', 420), (''d/ca-rpc.key'', 384), (''d/rpc.crt'', 420),
         (''d/rpc.key'', 384), (''d/ca-ui.crt'', 420), (''d/ca-ui.key'', 384),
         (''d/ui.crt'', 420), (''d/ui.key'', 384), (''d/node.crt'', 420),
         (''d/node.key'', 384), (''d/client.node.crt'', 420), (''d/client.node.key'', 384),
         (''d/sql.crt'', 420), (''d/sql.key'', 384), (''d/rpc.crt'', 420),
         (''d/rpc.key'', 384), (''d/ui.crt'', 420), (''d/ui.key'', 384)],
      entropy = 15\<rparr>"

text \<open>A bundle of five CA pairs as a joining node receives it, and what the node makes of it.\<close>

definition demo_received :: CertificateBundle where
  "demo_received =
     \<lparr>InterNode =
        \<lparr>CACertificate = Some ''ca-cert A'', CAKey = Some ''ca-key A'',
         HostCertificate = None, HostKey = None\<rparr>,
      UserAuth =
        \<lparr>CACertificate = Some ''ca-cert B'', CAKey = Some ''ca-key B'',
         HostCertificate = None, HostKey = None\<rparr>,
      SQLService =
        \<lparr>CACertificate = Some ''ca-cert C'', CAKey = Some ''ca-key C'',
         HostCertificate = None, HostKey = None\<rparr>,
      RPCService =
        \<lparr>CACertificate = Some ''ca-cert D'', CAKey = Some ''ca-key D'',
         HostCertificate = None, HostKey = None\<rparr>,
      AdminUIService =
        \<lparr>CACertificate = Some ''ca-cert E'', CAKey = Some ''ca-key E'',
         HostCertificate = None, HostKey = None\<rparr>\<rparr>"

text \<open>The world and the bundle of the joining node after the reception on the empty world.\<close>

definition demo_world_joined :: world where
  "demo_world_joined =
     \<lparr>files =
        [''d/ca.crt'' \<mapsto> ''ca-cert A'', ''d/ca.key'' \<mapsto> ''ca-key A'',
         ''d/ca-client.crt'' \<mapsto> ''ca-cert B'', ''d/ca-client.key'' \<mapsto> ''ca-key B'',
         ''d/ca-sql.crt'' \<mapsto> ''ca-cert C'', ''d/ca-sql.key'' \<mapsto> ''ca-key C'',
         ''d/ca-rpc.crt'' \<mapsto> ''ca-cert D'', ''d/ca-rpc.key'' \<mapsto> ''ca-key D'',
         ''d/ca-ui.crt'' \<mapsto> ''ca-cert E'', ''d/ca-ui.key'' \<mapsto> ''ca-key E'',
         ''d/node.crt'' \<mapsto> ''cert '', ''d/node.key'' \<mapsto> ''key '',
         ''d/client.node.crt'' \<mapsto> ''cert *'', ''d/client.node.key'' \<mapsto> ''key *'',
         ''d/sql.crt'' \<mapsto> ''cert **'', ''d/sql.key'' \<mapsto> ''key **'',
         ''d/rpc.crt'' \<mapsto> ''cert ***'', ''d/rpc.key'' \<mapsto> ''key ***'',
         ''d/ui.crt'' \<mapsto> ''cert ****'', ''d/ui.key'' \<mapsto> ''key ****''],
      stat_fault = Map.empty, read_fault = Map.empty, write_fault = Map.empty,
      mkdir_fault = None,
      written =
        [(''d/ca.crt'', 420), (''d/ca.key'', 384), (''d/ca-client.crt'', 420),
         (''d/ca-client.key'', 384), (''d/ca-sql.crt'', 420), (''d/ca-sql.key'', 384),
         (''d/ca-rpc.crt'', 420), (''d/ca-rpc.key'', 384), (''d/ca-ui.crt'', 420),
         (''d/ca-ui.key'', 384), (''d/node.crt'', 420), (''d/node.key'', 384),
         (''d/client.node.crt'', 420), (''d/client.node.key'', 384), (''d/sql.crt'', 420),
         (''d/sql.key'', 384), (''d/rpc.crt'', 420), (''d/rpc.key'', 384),
         (''d/ui.crt'', 420), (''d/ui.key'', 384)],
      entropy = 5\<rparr>"

definition demo_bundle_joined :: CertificateBundle where
  "demo_bundle_joined =
     \<lparr>InterNode =
        \<lparr>CACertificate = Some ''ca-cert A'', CAKey = Some ''ca-key A'',
         HostCertificate = Some ''cert '', HostKey = Some ''key ''\<rparr>,
      UserAuth =
        \<lparr>CACertificate = Some ''ca-cert B'', CAKey = Some ''ca-key B'',
         HostCertificate = Some ''cert *'', HostKey = Some ''key *''\<rparr>,
      SQLService =
        \<lparr>CACertificate = Some ''ca-cert C'', CAKey = Some ''ca-key C'',
         HostCertificate = Some ''cert **'', HostKey = Some ''key **''\<rparr>,
      RPCService =
        \<lparr>CACertificate = Some ''ca-cert D'', CAKey = Some ''ca-key D'',
         HostCertificate = Some ''cert ***'', HostKey = Some ''key ***''\<rparr>,
      AdminUIService =
        \<lparr>CACertificate = Some ''ca-cert E'', CAKey = Some ''ca-key E'',
         HostCertificate = Some ''cert ****'', HostKey = Some ''key ****''\<rparr>\<rparr>"

subsection \<open>Slots of a bundle, for the statements\<close>



definition frame :: "path set \<Rightarrow> world \<Rightarrow> world \<Rightarrow> bool" where
  "frame P w w' \<longleftrightarrow>
     read_fault w' = read_fault w \<and> entropy w \<le> entropy w' \<and>
     (\<forall>q. q \<notin> P \<longrightarrow> files w' q = files w q)"





section \<open>Properties\<close>

subsection \<open>Evaluation of the example environment\<close>

lemma demo_env_simps:
  "MakeLocator demo_env = demo_Locator"
  "SplitHostPort demo_env = SplitHostPort_spec"
  "PEMToCertificates demo_env = demo_PEMToCertificates"
  "pem_Decode demo_env = demo_Decode"
  "pem_EncodeToMemory demo_env = Bytes"
  "caCommonName demo_env = ''Cockroach CA''"
  "NodeUser demo_env = ''node''"
  by (simp_all add: demo_env_def)

subsection \<open>Host names\<close>

lemma found_in_set: "found_in res h \<longleftrightarrow> h \<in> set res"
  by (induction res) auto

lemma remdups_drop_earlier:
  "h \<in> set ys \<Longrightarrow> remdups (xs @ h # ys) = remdups (xs @ ys)"
  by (induction xs) auto

text \<open>
  The loop keeps the first occurrence of each host name, in the order of the input:
  \<open>remdups\<close> keeps the last occurrences, so the list is reversed around it.
\<close>

lemma extractHosts_loop_first_seen:
  assumes "\<forall>a \<in> set addrs. \<exists>h p. SplitHostPort env a ''0'' = Inr (h, p)"
    and "distinct res"
  shows "extractHosts_loop env res addrs =
           Inr (rev (remdups (rev (res @ map (\<lambda>a. fst (projr (SplitHostPort env a ''0''))) addrs))))"
  using assms
proof (induction addrs arbitrary: res)
  case Nil
  then show ?case by (simp add: distinct_remdups_id)
next
  case (Cons a addrs)
  from Cons.prems(1) obtain h p where split: "SplitHostPort env a ''0'' = Inr (h, p)"
    by auto
  from Cons.prems(1) have rest: "\<forall>a \<in> set addrs. \<exists>h p. SplitHostPort env a ''0'' = Inr (h, p)"
    by simp
  show ?case
  proof (cases "h \<in> set res")
    case True
    with Cons.IH [OF rest Cons.prems(2)] split show ?thesis
      by (simp add: found_in_set remdups_drop_earlier)
  next
    case False
    with Cons.prems(2) have "distinct (res @ [h])" by simp
    from Cons.IH [OF rest this] split False show ?thesis
      by (simp add: found_in_set)
  qed
qed

lemma extractHosts_loop_malformed:
  "\<exists>a \<in> set addrs. isl (SplitHostPort env a ''0'') \<Longrightarrow>
   \<exists>a err. a \<in> set addrs \<and> SplitHostPort env a ''0'' = Inl err \<and>
      extractHosts_loop env res addrs = Inl (PanicErr err)"
proof (induction addrs arbitrary: res)
  case Nil
  then show ?case by simp
next
  case (Cons a addrs)
  show ?case
  proof (cases "SplitHostPort env a ''0''")
    case (Inl err)
    then show ?thesis by auto
  next
    case (Inr hp)
    with Cons.prems have "\<exists>a \<in> set addrs. isl (SplitHostPort env a ''0'')" by auto
    from Cons.IH [OF this] Inr show ?thesis
      by (cases hp) (simp, blast)
  qed
qed

text \<open>
  C8. For every list of addresses that \<^verbatim>\<open>addr.SplitHostPort\<close> splits, \<open>extractHosts\<close>
  returns the host names (the ports are dropped), without duplicates, each at the
  place of its first occurrence. The example of the claim is the witness.
\<close>

theorem extractHosts_first_seen:
  assumes "\<forall>a \<in> set addrs. \<exists>h p. SplitHostPort env a ''0'' = Inr (h, p)"
  shows "extractHosts env addrs =
           Inr (rev (remdups (rev (map (\<lambda>a. fst (projr (SplitHostPort env a ''0''))) addrs))))"
  using extractHosts_loop_first_seen [OF assms, of "[]"] by (simp add: extractHosts_def)

theorem extractHosts_first_seen_witness:
  "SplitHostPort demo_env ''10.0.0.1:26257'' ''0'' = Inr (''10.0.0.1'', ''26257'') \<and>
   SplitHostPort demo_env ''10.0.0.1:26258'' ''0'' = Inr (''10.0.0.1'', ''26258'') \<and>
   SplitHostPort demo_env ''10.0.0.2:8080'' ''0'' = Inr (''10.0.0.2'', ''8080'') \<and>
   extractHosts demo_env [''10.0.0.1:26257'', ''10.0.0.1:26258'', ''10.0.0.2:8080'']
     = Inr [''10.0.0.1'', ''10.0.0.2'']"
  using extractHosts_first_seen
    [of "[''10.0.0.1:26257'', ''10.0.0.1:26258'', ''10.0.0.2:8080'']" demo_env]
  by (simp add: demo_env_simps SplitHostPort_spec_def)

text \<open>
  C7, as amended. \<open>extractHosts\<close> has no error result: for every list with an address
  that \<^verbatim>\<open>addr.SplitHostPort\<close> rejects, it panics with the error of such an address
  and returns nothing to its caller.
\<close>

theorem extractHosts_malformed_panics:
  "\<exists>a \<in> set addrs. isl (SplitHostPort env a ''0'') \<Longrightarrow>
   \<exists>a err. a \<in> set addrs \<and> SplitHostPort env a ''0'' = Inl err \<and>
      extractHosts env addrs = Inl (PanicErr err)"
  unfolding extractHosts_def by (rule extractHosts_loop_malformed)

theorem extractHosts_malformed_panics_witness:
  "(\<exists>a \<in> set [''10.0.0.1:26257'', ''a:b:c'']. isl (SplitHostPort demo_env a ''0'')) \<and>
   extractHosts demo_env [''10.0.0.1:26257'', ''a:b:c'']
     = Inl (PanicErr (New ''invalid address format: a:b:c''))"
  using extractHosts_malformed_panics [of "[''10.0.0.1:26257'', ''a:b:c'']" demo_env]
  by (simp add: demo_env_simps SplitHostPort_spec_def extractHosts_def)

text \<open>
  C7, as stated, fails: on a list with the malformed address \<^verbatim>\<open>a:b:c\<close> the function
  does not return, it panics.
\<close>

theorem extractHosts_returns_error_counterexample:
  "extractHosts demo_env [''a:b:c''] = Inl (PanicErr (New ''invalid address format: a:b:c''))"
  by (simp add: demo_env_simps SplitHostPort_spec_def extractHosts_def)

subsection \<open>The guard of the bootstrap\<close>

text \<open>
  C1. When the inter-node host certificate exists, \<open>InitializeFromConfig\<close> returns the
  error "inter-node certificate already present" (the AlreadyInitialized of the
  specification) and the world it leaves is the world it found: no file is written
  and the bundle is unchanged.
\<close>

theorem InitializeFromConfig_guard:
  "FileExists w (NodeCertPath (MakeLocator env (SSLCertsDir c))) = Inr True \<Longrightarrow>
   InitializeFromConfig env c b w = (Err (New ''inter-node certificate already present''), b, w)"
  by (simp add: InitializeFromConfig_def)

theorem InitializeFromConfig_guard_witness:
  "FileExists (empty_world\<lparr>files := [''d/node.crt'' \<mapsto> ''cert'']\<rparr>)
     (NodeCertPath (MakeLocator demo_env (SSLCertsDir demo_config))) = Inr True \<and>
   InitializeFromConfig demo_env demo_config zeroCertificateBundle
       (empty_world\<lparr>files := [''d/node.crt'' \<mapsto> ''cert'']\<rparr>)
     = (Err (New ''inter-node certificate already present''), zeroCertificateBundle,
        empty_world\<lparr>files := [''d/node.crt'' \<mapsto> ''cert'']\<rparr>)"
  using InitializeFromConfig_guard
    [of "empty_world\<lparr>files := [''d/node.crt'' \<mapsto> ''cert'']\<rparr>" demo_env demo_config
        zeroCertificateBundle]
  by (simp add: demo_env_simps demo_Locator_def demo_config_def empty_world_def
        FileExists_def Stat_def)

subsection \<open>The effect of the rotation on the files\<close>

lemma issued_I:
  "n0 \<le> n \<Longrightarrow> CreateServiceCertAndKey env n l cn hs cc ck d = Inr (cert, key) \<Longrightarrow>
   pem_EncodeToMemory env cert \<in> issued env n0 \<and> pem_EncodeToMemory env key \<in> issued env n0"
  unfolding issued_def by blast

lemma WritePEMToFile_Some:
  "WritePEMToFile env p m ow (Some b) w = (oc, w') \<Longrightarrow>
   (oc = Ok \<and> w' = w\<lparr>files := (files w)(p \<mapsto> pem_EncodeToMemory env b),
                       written := written w @ [(p, m)]\<rparr>) \<or>
   (\<exists>e. oc = Err e \<and> w' = w)"
  by (auto simp: WritePEMToFile_def split: option.splits if_splits)

lemma new_at_entropy [simp]: "new_at env n0 (w\<lparr>entropy := n\<rparr>) q = new_at env n0 w q"
  by (simp add: new_at_def)

lemma same_outside_refl [simp]: "same_outside P w w"
  by (simp add: same_outside_def)

lemma rotateServiceCert_effect:
  assumes "rotateServiceCert env cp kp l cn ss hs dual sb w = (oc, w')"
  shows "same_outside {cp, kp} w w' \<and> entropy w \<le> entropy w' \<and>
         (\<forall>n0 q. n0 \<le> entropy w \<longrightarrow> new_at env n0 w q \<longrightarrow> new_at env n0 w' q) \<and>
         (oc = Ok \<longrightarrow> (\<forall>n0 \<le> entropy w. new_at env n0 w' cp \<and> new_at env n0 w' kp))"
proof (cases "PEMToCertificates env (CACertificate sb)")
  case (Inl err)
  with assms show ?thesis by (auto simp: rotateServiceCert_def)
next
  case (Inr caCertPEM)
  show ?thesis
  proof (cases "pem_Decode env (CAKey sb)")
    case (Pair caKeyPEM rest)
    show ?thesis
    proof (cases "caKeyPEM = None \<or> rest \<noteq> [] \<or> caCertPEM = []")
      case True
      with assms Inr Pair show ?thesis
        by (auto simp: rotateServiceCert_def split: option.splits list.splits if_splits)
    next
      case False
      then obtain k c0 cs where k: "caKeyPEM = Some k" "rest = []" "caCertPEM = c0 # cs"
        by (cases caKeyPEM; cases caCertPEM) auto
      show ?thesis
      proof (cases "CreateServiceCertAndKey env (entropy w) l cn hs c0 k dual")
        case (Inl err)
        with assms Inr Pair k show ?thesis by (auto simp: rotateServiceCert_def same_outside_def)
      next
        case create: (Inr pair)
        obtain certPEM keyPEM where pair: "pair = (certPEM, keyPEM)" by (cases pair)
        have iss: "\<And>n0. n0 \<le> entropy w \<Longrightarrow>
            pem_EncodeToMemory env certPEM \<in> issued env n0 \<and>
            pem_EncodeToMemory env keyPEM \<in> issued env n0"
          using issued_I create pair by blast
        from assms Inr Pair k create pair show ?thesis
          unfolding rotateServiceCert_def writeCertificateFile_def writeKeyFile_def
          by (auto simp: Let_def same_outside_def new_at_def iss
              split: sum.splits prod.splits outcome.splits
              dest!: WritePEMToFile_Some)
      qed
    qed
  qed
qed

lemma loadCACertAndKeyIfExists_present:
  "loadCACertAndKeyIfExists cp kp sb w = (None, sb') \<Longrightarrow> files w cp \<noteq> None \<Longrightarrow>
   CACertificate sb' \<noteq> None"
  by (auto simp: loadCACertAndKeyIfExists_def loadCACertAndKey_def loadCertificateFile_def
      loadKeyFile_def ReadFile_def split: sum.splits option.splits if_splits prod.splits)

lemma collectLocalCABundle_present:
  assumes "collectLocalCABundle env dir w = (b, None)" and "cl = MakeLocator env dir"
  shows "(files w (CACertPath cl) \<noteq> None \<longrightarrow> CACertificate (InterNode b) \<noteq> None) \<and>
         (files w (ClientCACertPath cl) \<noteq> None \<longrightarrow> CACertificate (UserAuth b) \<noteq> None) \<and>
         (files w (SQLServiceCACertPath cl) \<noteq> None \<longrightarrow> CACertificate (SQLService b) \<noteq> None) \<and>
         (files w (RPCServiceCACertPath cl) \<noteq> None \<longrightarrow> CACertificate (RPCService b) \<noteq> None) \<and>
         (files w (UICACertPath cl) \<noteq> None \<longrightarrow> CACertificate (AdminUIService b) \<noteq> None)"
  using assms unfolding collectLocalCABundle_def Let_def
  by (auto split: prod.splits option.splits dest: loadCACertAndKeyIfExists_present)

lemma guarded_rotate_effect:
  assumes "(if CACertificate sb \<noteq> None
            then rotateServiceCert env cp kp l cn ss hs dual sb w else (Ok, w)) = (oc, w')"
  shows "same_outside {cp, kp} w w' \<and> entropy w \<le> entropy w' \<and>
         (\<forall>n0 q. n0 \<le> entropy w \<longrightarrow> new_at env n0 w q \<longrightarrow> new_at env n0 w' q) \<and>
         (oc = Ok \<longrightarrow> CACertificate sb \<noteq> None \<longrightarrow>
            (\<forall>n0 \<le> entropy w. new_at env n0 w' cp \<and> new_at env n0 w' kp))"
proof (cases "CACertificate sb")
  case None
  with assms show ?thesis by simp
next
  case (Some a)
  with assms have "rotateServiceCert env cp kp l cn ss hs dual sb w = (oc, w')" by simp
  from rotateServiceCert_effect [OF this] show ?thesis by simp
qed

lemma rotateGeneratedCerts_Ok_steps:
  assumes "rotateGeneratedCerts env c w = (Ok, w')" and "cl = MakeLocator env (SSLCertsDir c)"
  shows "\<exists>b rpcAddrs sqlAddrs httpAddr0 httpAddrs w1 w2 w3 w4.
     collectLocalCABundle env (SSLCertsDir c) w = (b, None) \<and>
     (if CACertificate (InterNode b) \<noteq> None
      then rotateServiceCert env (NodeCertPath cl) (NodeKeyPath cl) defaultCertLifetime
             (NodeUser env) serviceNameInterNode rpcAddrs True (InterNode b) w
      else (Ok, w)) = (Ok, w1) \<and>
     (if CACertificate (UserAuth b) \<noteq> None
      then rotateServiceCert env (ClientNodeCertPath cl) (ClientNodeKeyPath cl)
             defaultCertLifetime (NodeUser env) serviceNameUserAuth [] True (UserAuth b) w1
      else (Ok, w1)) = (Ok, w2) \<and>
     (if CACertificate (SQLService b) \<noteq> None
      then rotateServiceCert env (SQLServiceCertPath cl) (SQLServiceKeyPath cl)
             defaultCertLifetime (NodeUser env) serviceNameSQL sqlAddrs False (SQLService b) w2
      else (Ok, w2)) = (Ok, w3) \<and>
     (if CACertificate (RPCService b) \<noteq> None
      then rotateServiceCert env (RPCServiceCertPath cl) (RPCServiceKeyPath cl)
             defaultCertLifetime (NodeUser env) serviceNameRPC rpcAddrs False (RPCService b) w3
      else (Ok, w3)) = (Ok, w4) \<and>
     (if CACertificate (AdminUIService b) \<noteq> None
      then rotateServiceCert env (UICertPath cl) (UIKeyPath cl) defaultCertLifetime
             httpAddr0 serviceNameUI httpAddrs False (AdminUIService b) w4
      else (Ok, w4)) = (Ok, w')"
proof -
  from assms obtain b where b: "collectLocalCABundle env (SSLCertsDir c) w = (b, None)"
    unfolding rotateGeneratedCerts_def Let_def
    by (cases "collectLocalCABundle env (SSLCertsDir c) w") (auto split: option.splits)
  from assms b obtain rpcAddrs where r: "extractHosts env [Addr c, AdvertiseAddr c] = Inr rpcAddrs"
    unfolding rotateGeneratedCerts_def Let_def
    by (cases "extractHosts env [Addr c, AdvertiseAddr c]") auto
  from assms b r obtain sqlAddrs where s:
    "(if SplitListenSQL c then extractHosts env [SQLAddr c, SQLAdvertiseAddr c]
      else Inr rpcAddrs) = Inr sqlAddrs"
    unfolding rotateGeneratedCerts_def Let_def
    by (cases "(if SplitListenSQL c then extractHosts env [SQLAddr c, SQLAdvertiseAddr c]
      else Inr rpcAddrs)") auto
  from assms b r s obtain httpAddrs where h:
    "extractHosts env [HTTPAddr c, HTTPAdvertiseAddr c] = Inr httpAddrs"
    unfolding rotateGeneratedCerts_def Let_def
    by (cases "extractHosts env [HTTPAddr c, HTTPAdvertiseAddr c]") auto
  from assms b r s h show ?thesis
    unfolding rotateGeneratedCerts_def Let_def
    apply (simp split: prod.splits outcome.splits list.splits if_splits)
    apply blast+
    done
qed

lemma guarded_rotate_same:
  "(if CACertificate sb \<noteq> None
    then rotateServiceCert env cp kp l cn ss hs dual sb w else (Ok, w)) = (oc, w') \<Longrightarrow>
   q \<noteq> cp \<Longrightarrow> q \<noteq> kp \<Longrightarrow> files w' q = files w q"
  using guarded_rotate_effect [of sb env cp kp l cn ss hs dual w oc w']
  by (simp add: same_outside_def)

lemma guarded_rotate_mono:
  "(if CACertificate sb \<noteq> None
    then rotateServiceCert env cp kp l cn ss hs dual sb w else (Ok, w)) = (oc, w') \<Longrightarrow>
   n0 \<le> entropy w \<Longrightarrow> n0 \<le> entropy w'"
  using guarded_rotate_effect [of sb env cp kp l cn ss hs dual w oc w'] by simp

lemma guarded_rotate_keep:
  "(if CACertificate sb \<noteq> None
    then rotateServiceCert env cp kp l cn ss hs dual sb w else (Ok, w)) = (oc, w') \<Longrightarrow>
   n0 \<le> entropy w \<Longrightarrow> new_at env n0 w q \<Longrightarrow> new_at env n0 w' q"
  using guarded_rotate_effect [of sb env cp kp l cn ss hs dual w oc w'] by simp

lemma guarded_rotate_new:
  "(if CACertificate sb \<noteq> None
    then rotateServiceCert env cp kp l cn ss hs dual sb w else (Ok, w)) = (Ok, w') \<Longrightarrow>
   CACertificate sb \<noteq> None \<Longrightarrow> n0 \<le> entropy w \<Longrightarrow>
   new_at env n0 w' cp \<and> new_at env n0 w' kp"
  using guarded_rotate_effect [of sb env cp kp l cn ss hs dual w Ok w'] by simp

lemma rotateGeneratedCerts_effect:
  assumes rot: "rotateGeneratedCerts env c w = (Ok, w')"
    and cl: "cl = MakeLocator env (SSLCertsDir c)"
  shows "(\<forall>q. q \<notin> set (hostPaths cl) \<longrightarrow> files w' q = files w q) \<and>
         (\<forall>s. files w (caCertPathOf cl s) \<noteq> None \<longrightarrow>
              new_at env (entropy w) w' (hostCertPathOf cl s) \<and>
              new_at env (entropy w) w' (hostKeyPathOf cl s))"
proof -
  from rotateGeneratedCerts_Ok_steps [OF rot cl]
  obtain b rpcAddrs sqlAddrs httpAddr0 httpAddrs w1 w2 w3 w4 where
    col: "collectLocalCABundle env (SSLCertsDir c) w = (b, None)" and
    s1: "(if CACertificate (InterNode b) \<noteq> None
      then rotateServiceCert env (NodeCertPath cl) (NodeKeyPath cl) defaultCertLifetime
             (NodeUser env) serviceNameInterNode rpcAddrs True (InterNode b) w
      else (Ok, w)) = (Ok, w1)" and
    s2: "(if CACertificate (UserAuth b) \<noteq> None
      then rotateServiceCert env (ClientNodeCertPath cl) (ClientNodeKeyPath cl)
             defaultCertLifetime (NodeUser env) serviceNameUserAuth [] True (UserAuth b) w1
      else (Ok, w1)) = (Ok, w2)" and
    s3: "(if CACertificate (SQLService b) \<noteq> None
      then rotateServiceCert env (SQLServiceCertPath cl) (SQLServiceKeyPath cl)
             defaultCertLifetime (NodeUser env) serviceNameSQL sqlAddrs False (SQLService b) w2
      else (Ok, w2)) = (Ok, w3)" and
    s4: "(if CACertificate (RPCService b) \<noteq> None
      then rotateServiceCert env (RPCServiceCertPath cl) (RPCServiceKeyPath cl)
             defaultCertLifetime (NodeUser env) serviceNameRPC rpcAddrs False (RPCService b) w3
      else (Ok, w3)) = (Ok, w4)" and
    s5: "(if CACertificate (AdminUIService b) \<noteq> None
      then rotateServiceCert env (UICertPath cl) (UIKeyPath cl) defaultCertLifetime
             httpAddr0 serviceNameUI httpAddrs False (AdminUIService b) w4
      else (Ok, w4)) = (Ok, w')"
    by blast
  note ca = collectLocalCABundle_present [OF col cl]
  have m1: "entropy w \<le> entropy w1" by (rule guarded_rotate_mono [OF s1 order_refl])
  have m2: "entropy w \<le> entropy w2" by (rule guarded_rotate_mono [OF s2 m1])
  have m3: "entropy w \<le> entropy w3" by (rule guarded_rotate_mono [OF s3 m2])
  have m4: "entropy w \<le> entropy w4" by (rule guarded_rotate_mono [OF s4 m3])
  have keep4: "new_at env (entropy w) w' q" if "new_at env (entropy w) w4 q" for q
    by (rule guarded_rotate_keep [OF s5 m4 that])
  have keep3: "new_at env (entropy w) w' q" if "new_at env (entropy w) w3 q" for q
    by (rule keep4 [OF guarded_rotate_keep [OF s4 m3 that]])
  have keep2: "new_at env (entropy w) w' q" if "new_at env (entropy w) w2 q" for q
    by (rule keep3 [OF guarded_rotate_keep [OF s3 m2 that]])
  have keep1: "new_at env (entropy w) w' q" if "new_at env (entropy w) w1 q" for q
    by (rule keep2 [OF guarded_rotate_keep [OF s2 m1 that]])
  have n1: "new_at env (entropy w) w' (NodeCertPath cl) \<and>
            new_at env (entropy w) w' (NodeKeyPath cl)"
    if "files w (CACertPath cl) \<noteq> None"
  proof -
    from ca that have "CACertificate (InterNode b) \<noteq> None" by simp
    from guarded_rotate_new [OF s1 this order_refl] keep1 show ?thesis by simp
  qed
  have n2: "new_at env (entropy w) w' (ClientNodeCertPath cl) \<and>
            new_at env (entropy w) w' (ClientNodeKeyPath cl)"
    if "files w (ClientCACertPath cl) \<noteq> None"
  proof -
    from ca that have "CACertificate (UserAuth b) \<noteq> None" by simp
    from guarded_rotate_new [OF s2 this m1] keep2 show ?thesis by simp
  qed
  have n3: "new_at env (entropy w) w' (SQLServiceCertPath cl) \<and>
            new_at env (entropy w) w' (SQLServiceKeyPath cl)"
    if "files w (SQLServiceCACertPath cl) \<noteq> None"
  proof -
    from ca that have "CACertificate (SQLService b) \<noteq> None" by simp
    from guarded_rotate_new [OF s3 this m2] keep3 show ?thesis by simp
  qed
  have n4: "new_at env (entropy w) w' (RPCServiceCertPath cl) \<and>
            new_at env (entropy w) w' (RPCServiceKeyPath cl)"
    if "files w (RPCServiceCACertPath cl) \<noteq> None"
  proof -
    from ca that have "CACertificate (RPCService b) \<noteq> None" by simp
    from guarded_rotate_new [OF s4 this m3] keep4 show ?thesis by simp
  qed
  have n5: "new_at env (entropy w) w' (UICertPath cl) \<and>
            new_at env (entropy w) w' (UIKeyPath cl)"
    if "files w (UICACertPath cl) \<noteq> None"
  proof -
    from ca that have "CACertificate (AdminUIService b) \<noteq> None" by simp
    from guarded_rotate_new [OF s5 this m4] show ?thesis by simp
  qed
  have new: "new_at env (entropy w) w' (hostCertPathOf cl s) \<and>
             new_at env (entropy w) w' (hostKeyPathOf cl s)"
    if "files w (caCertPathOf cl s) \<noteq> None" for s
    using that n1 n2 n3 n4 n5 by (cases s) simp_all
  have same: "files w' q = files w q" if "q \<notin> set (hostPaths cl)" for q
  proof -
    from that have d: "q \<noteq> NodeCertPath cl" "q \<noteq> NodeKeyPath cl"
      "q \<noteq> ClientNodeCertPath cl" "q \<noteq> ClientNodeKeyPath cl"
      "q \<noteq> SQLServiceCertPath cl" "q \<noteq> SQLServiceKeyPath cl"
      "q \<noteq> RPCServiceCertPath cl" "q \<noteq> RPCServiceKeyPath cl"
      "q \<noteq> UICertPath cl" "q \<noteq> UIKeyPath cl"
      by (simp_all add: hostPaths_def slots_def)
    have "files w' q = files w4 q" by (rule guarded_rotate_same [OF s5 d(9) d(10)])
    also have "\<dots> = files w3 q" by (rule guarded_rotate_same [OF s4 d(7) d(8)])
    also have "\<dots> = files w2 q" by (rule guarded_rotate_same [OF s3 d(5) d(6)])
    also have "\<dots> = files w1 q" by (rule guarded_rotate_same [OF s2 d(3) d(4)])
    also have "\<dots> = files w q" by (rule guarded_rotate_same [OF s1 d(1) d(2)])
    finally show ?thesis .
  qed
  from new same show ?thesis by simp
qed

lemma issues_fresh_new_at:
  assumes "issues_fresh env w" and "new_at env (entropy w) w' p"
  shows "files w' p \<noteq> files w q"
proof -
  from assms(2) obtain b where b: "b \<in> issued env (entropy w)" "files w' p = Some b"
    unfolding new_at_def by blast
  from b(1) obtain n lifespan cn hosts caCert caKey dual cert key where
    n: "entropy w \<le> n" and
    cr: "CreateServiceCertAndKey env n lifespan cn hosts caCert caKey dual = Inr (cert, key)" and
    eq: "b = pem_EncodeToMemory env cert \<or> b = pem_EncodeToMemory env key"
    unfolding issued_def by blast
  from assms(1) n cr have "files w q \<noteq> Some (pem_EncodeToMemory env cert) \<and>
        files w q \<noteq> Some (pem_EncodeToMemory env key)"
    unfolding issues_fresh_def by blast
  with eq b(2) show ?thesis by auto
qed

text \<open>
  C6. After a successful bootstrap and a successful rotation, for every slot whose CA
  certificate is on disk the host certificate file and the host key file have changed,
  and the CA certificate and CA key files of every slot hold the bytes they held
  before the rotation. The paths of the CAs are not paths of host files, and the
  generator issues fresh material (it never issues what is already on disk).
\<close>

theorem rotate_changes_hosts_keeps_CAs:
  assumes boot: "InitializeFromConfig env c b0 w0 = (Ok, b1, w1)"
    and rot: "rotateGeneratedCerts env c w1 = (Ok, w2)"
    and cl: "cl = MakeLocator env (SSLCertsDir c)"
    and disj: "set (caPaths cl) \<inter> set (hostPaths cl) = {}"
    and fresh: "issues_fresh env w1"
  shows "(\<forall>s. files w1 (caCertPathOf cl s) \<noteq> None \<longrightarrow>
            files w2 (hostCertPathOf cl s) \<noteq> files w1 (hostCertPathOf cl s) \<and>
            files w2 (hostKeyPathOf cl s) \<noteq> files w1 (hostKeyPathOf cl s)) \<and>
         (\<forall>s. files w2 (caCertPathOf cl s) = files w1 (caCertPathOf cl s) \<and>
              files w2 (caKeyPathOf cl s) = files w1 (caKeyPathOf cl s))"
proof -
  note eff = rotateGeneratedCerts_effect [OF rot cl]
  have hosts: "files w2 (hostCertPathOf cl s) \<noteq> files w1 (hostCertPathOf cl s) \<and>
            files w2 (hostKeyPathOf cl s) \<noteq> files w1 (hostKeyPathOf cl s)"
    if "files w1 (caCertPathOf cl s) \<noteq> None" for s
  proof -
    from eff that have "new_at env (entropy w1) w2 (hostCertPathOf cl s)"
      "new_at env (entropy w1) w2 (hostKeyPathOf cl s)" by simp_all
    then show ?thesis using issues_fresh_new_at [OF fresh] by simp
  qed
  have inca: "caCertPathOf cl s \<in> set (caPaths cl) \<and> caKeyPathOf cl s \<in> set (caPaths cl)" for s
    by (cases s) (simp_all add: caPaths_def slots_def)
  have cas: "files w2 (caCertPathOf cl s) = files w1 (caCertPathOf cl s) \<and>
              files w2 (caKeyPathOf cl s) = files w1 (caKeyPathOf cl s)" for s
  proof -
    from inca [of s] disj have "caCertPathOf cl s \<notin> set (hostPaths cl)"
      "caKeyPathOf cl s \<notin> set (hostPaths cl)" by blast+
    with eff show ?thesis by simp
  qed
  from hosts cas show ?thesis by simp
qed

subsection \<open>Evaluation of the examples\<close>

lemma demo_generators:
  "CreateCACertAndKey demo_env n l cn =
     Inr (demo_block (''ca-cert '' @ replicate n (CHR ''*'')),
          demo_block (''ca-key '' @ replicate n (CHR ''*'')))"
  "CreateServiceCertAndKey demo_env n l cn hs cc ck d =
     Inr (demo_block (''cert '' @ replicate n (CHR ''*'')),
          demo_block (''key '' @ replicate n (CHR ''*'')))"
  by (simp_all add: demo_env_def)

lemma replicate_numeral_Cons:
  "replicate (numeral k) x = x # replicate (pred_numeral k) x"
  by (simp add: numeral_eq_Suc)

lemmas demo_eval = replicate_numeral_Cons
  demo_env_simps demo_generators demo_Locator_def demo_config_def demo_Decode_def
  demo_PEMToCertificates_def demo_block_def SplitHostPort_spec_def empty_world_def
  zeroServiceCertificateBundle_def zeroCertificateBundle_def
  loadCertificateFile_def loadKeyFile_def ReadFile_def Stat_def FileExists_def
  writeCertificateFile_def writeKeyFile_def WritePEMToFile_def EnsureCertsDirectory_def
  extractHosts_def createServiceCA_def createServiceCertFromCA_def
  loadOrCreateServiceCertificates_def

lemma demo_bootstrap:
  "InitializeFromConfig demo_env demo_config zeroCertificateBundle empty_world =
     (Ok, demo_bundle1, demo_world1)"
  by (simp add: InitializeFromConfig_def demo_eval demo_world1_def demo_bundle1_def)

lemma demo_rotate:
  "rotateGeneratedCerts demo_env demo_config demo_world1 = (Ok, demo_world2)"
  by (simp add: rotateGeneratedCerts_def collectLocalCABundle_def loadCACertAndKeyIfExists_def
      loadCACertAndKey_def rotateServiceCert_def demo_eval demo_world1_def demo_world2_def)

lemma demo_join:
  "InitializeNodeFromBundle demo_env demo_config demo_received empty_world =
     (Ok, demo_bundle_joined, demo_world_joined)"
  by (simp add: InitializeNodeFromBundle_def InitializeFromConfig_def writeCAOrFail_def
      demo_eval demo_received_def demo_bundle_joined_def demo_world_joined_def)

subsection \<open>A successful bootstrap leaves the inter-node certificate\<close>

lemma WritePEMToFile_grows:
  "WritePEMToFile env p m ow blk w = (oc, w') \<Longrightarrow>
   grows w w' \<and> (oc = Ok \<longrightarrow> files w' p \<noteq> None)"
  by (auto simp: WritePEMToFile_def grows_def split: option.splits if_splits)

lemma createServiceCA_grows:
  "createServiceCA env caCertPath caKeyPath l sb w = (oc, sb', w') \<Longrightarrow> grows w w'"
  unfolding createServiceCA_def writeCertificateFile_def writeKeyFile_def
  by (auto simp: Let_def grows_def split: sum.splits prod.splits outcome.splits
      dest!: WritePEMToFile_grows)

lemma createServiceCertFromCA_grows:
  "createServiceCertFromCA env scp skp l cn hs dual sb w = (oc, sb', w') \<Longrightarrow>
   grows w w' \<and> (oc = Ok \<longrightarrow> files w' scp \<noteq> None)"
  unfolding createServiceCertFromCA_def writeCertificateFile_def writeKeyFile_def
  by (auto simp: Let_def grows_def split: sum.splits prod.splits outcome.splits option.splits
      list.splits if_splits dest!: WritePEMToFile_grows)

lemma ReadFile_Inr_present: "ReadFile w p = Inr b \<Longrightarrow> files w p \<noteq> None"
  by (auto simp: ReadFile_def split: option.splits)

lemma loadOrCreate_grows:
  "loadOrCreateServiceCertificates env scp skp ccp ckp l1 l2 cn sn hs dual sb w = (oc, sb', w')
   \<Longrightarrow> grows w w' \<and> (oc = Ok \<longrightarrow> files w' scp \<noteq> None)"
  unfolding loadOrCreateServiceCertificates_def loadCertificateFile_def
  by (auto simp: grows_def split: sum.splits prod.splits outcome.splits if_splits
      dest!: createServiceCertFromCA_grows createServiceCA_grows ReadFile_Inr_present)

lemma FileExists_False_no_fault:
  "FileExists w p = Inr False \<Longrightarrow> stat_fault w p = None"
  by (auto simp: FileExists_def Stat_def split: option.splits sum.splits if_splits)

lemma FileExists_True_iff:
  "FileExists w p = Inr True \<longleftrightarrow> stat_fault w p = None \<and> files w p \<noteq> None"
  by (auto simp: FileExists_def Stat_def split: option.splits sum.splits if_splits)

lemma InitializeFromConfig_Ok_initialized:
  assumes "InitializeFromConfig env c b w = (Ok, b', w')"
  shows "FileExists w' (NodeCertPath (MakeLocator env (SSLCertsDir c))) = Inr True"
  using assms unfolding InitializeFromConfig_def Let_def
  by (auto simp: FileExists_True_iff grows_def
      split: sum.splits bool.splits option.splits prod.splits outcome.splits list.splits
      dest!: loadOrCreate_grows FileExists_False_no_fault)

lemma InitializeNodeFromBundle_Ok_initialized:
  assumes "InitializeNodeFromBundle env c b w = (Ok, b', w')"
  shows "FileExists w' (NodeCertPath (MakeLocator env (SSLCertsDir c))) = Inr True"
  using assms unfolding InitializeNodeFromBundle_def Let_def
  by (auto split: sum.splits bool.splits option.splits prod.splits outcome.splits
      dest: InitializeFromConfig_Ok_initialized)

lemma InitializeFromConfig_again:
  "InitializeFromConfig env c b w = (Ok, b1, w1) \<Longrightarrow>
   InitializeFromConfig env c b' w1 =
     (Err (New ''inter-node certificate already present''), b', w1)"
  by (simp add: InitializeFromConfig_Ok_initialized InitializeFromConfig_def)

lemma InitializeNodeFromBundle_again:
  "InitializeNodeFromBundle env c b w = (Ok, b1, w1) \<Longrightarrow>
   InitializeNodeFromBundle env c b' w1 =
     (Err (New ''inter-node certificate already present''), b', w1)"
  by (simp add: InitializeNodeFromBundle_Ok_initialized InitializeNodeFromBundle_def)

subsection \<open>The rotation of the example\<close>

lemma short_neq_replicate:
  "length xs < n \<Longrightarrow> xs \<noteq> replicate n x"
  "length xs < n \<Longrightarrow> replicate n x \<noteq> xs"
  by auto

lemma demo_fresh: "issues_fresh demo_env demo_world1"
  unfolding issues_fresh_def
  by (auto simp: demo_generators demo_env_simps demo_block_def demo_world1_def
      short_neq_replicate)

lemma demo_paths_disjoint:
  "set (caPaths (MakeLocator demo_env (SSLCertsDir demo_config))) \<inter>
   set (hostPaths (MakeLocator demo_env (SSLCertsDir demo_config))) = {}"
  by (simp add: caPaths_def hostPaths_def slots_def demo_env_simps demo_Locator_def
      demo_config_def)

theorem rotate_changes_hosts_keeps_CAs_witness:
  "InitializeFromConfig demo_env demo_config zeroCertificateBundle empty_world =
     (Ok, demo_bundle1, demo_world1) \<and>
   rotateGeneratedCerts demo_env demo_config demo_world1 = (Ok, demo_world2) \<and>
   issues_fresh demo_env demo_world1 \<and>
   files demo_world1 ''d/ca-ui.crt'' = Some ''ca-cert ********'' \<and>
   files demo_world1 ''d/ui.crt'' = Some ''cert *********'' \<and>
   files demo_world2 ''d/ui.crt'' \<noteq> files demo_world1 ''d/ui.crt'' \<and>
   files demo_world2 ''d/ui.key'' \<noteq> files demo_world1 ''d/ui.key'' \<and>
   files demo_world2 ''d/ca-ui.crt'' = files demo_world1 ''d/ca-ui.crt'' \<and>
   files demo_world2 ''d/ca-ui.key'' = files demo_world1 ''d/ca-ui.key''"
proof -
  note t = rotate_changes_hosts_keeps_CAs
    [OF demo_bootstrap demo_rotate refl demo_paths_disjoint demo_fresh]
  have ca: "files demo_world1 ''d/ca-ui.crt'' = Some ''ca-cert ********''"
    and h: "files demo_world1 ''d/ui.crt'' = Some ''cert *********''"
    by (simp_all add: demo_world1_def)
  have loc: "MakeLocator demo_env (SSLCertsDir demo_config) = demo_Locator ''d''"
    by (simp add: demo_env_simps demo_config_def)
  from t [THEN conjunct1, THEN spec, of SlotAdminUIService]
    t [THEN conjunct2, THEN spec, of SlotAdminUIService] ca h
  show ?thesis
    by (simp add: loc demo_Locator_def demo_bootstrap demo_rotate demo_fresh)
qed

subsection \<open>Running the bootstrap or the reception twice\<close>

text \<open>
  C2, as amended. When a bootstrap succeeds, a second bootstrap on the world it leaves,
  with the same configuration and any bundle, stops at the guard with "inter-node
  certificate already present": it returns the world unchanged, so every file keeps
  its bytes and nothing is written.
\<close>

theorem InitializeFromConfig_second_run_guarded:
  "InitializeFromConfig env c b w = (Ok, b1, w1) \<Longrightarrow>
   InitializeFromConfig env c b' w1 =
     (Err (New ''inter-node certificate already present''), b', w1)"
  by (rule InitializeFromConfig_again)

theorem InitializeFromConfig_second_run_guarded_witness:
  "InitializeFromConfig demo_env demo_config zeroCertificateBundle empty_world =
     (Ok, demo_bundle1, demo_world1) \<and>
   InitializeFromConfig demo_env demo_config zeroCertificateBundle demo_world1 =
     (Err (New ''inter-node certificate already present''), zeroCertificateBundle, demo_world1)"
  using InitializeFromConfig_second_run_guarded [OF demo_bootstrap, of zeroCertificateBundle]
    demo_bootstrap
  by simp

text \<open>
  C2, as stated, fails: on the empty world the first bootstrap of the example
  succeeds and the second one, on the world the first one left, does not.
\<close>

theorem InitializeFromConfig_twice_counterexample:
  "fst (InitializeFromConfig demo_env demo_config zeroCertificateBundle empty_world) = Ok \<and>
   fst (InitializeFromConfig demo_env demo_config zeroCertificateBundle
          (snd (snd (InitializeFromConfig demo_env demo_config zeroCertificateBundle
                       empty_world)))) \<noteq> Ok"
  using InitializeFromConfig_again [OF demo_bootstrap, of zeroCertificateBundle] demo_bootstrap
  by simp

text \<open>
  C4, as amended. After a successful \<open>InitializeNodeFromBundle\<close>, a second call on the
  world it leaves stops at the guard with "inter-node certificate already present",
  before the step that writes the CAs, and returns the world unchanged.
\<close>

theorem InitializeNodeFromBundle_second_run_guarded:
  "InitializeNodeFromBundle env c b w = (Ok, b1, w1) \<Longrightarrow>
   InitializeNodeFromBundle env c b' w1 =
     (Err (New ''inter-node certificate already present''), b', w1)"
  by (rule InitializeNodeFromBundle_again)

theorem InitializeNodeFromBundle_second_run_guarded_witness:
  "InitializeNodeFromBundle demo_env demo_config demo_received empty_world =
     (Ok, demo_bundle_joined, demo_world_joined) \<and>
   InitializeNodeFromBundle demo_env demo_config demo_received demo_world_joined =
     (Err (New ''inter-node certificate already present''), demo_received, demo_world_joined)"
  using InitializeNodeFromBundle_second_run_guarded [OF demo_join, of demo_received] demo_join
  by simp

text \<open>
  C4, as stated, fails: the second reception of the example does not return the
  already-exists error of the first CA write, it returns the error of the guard.
\<close>

theorem InitializeNodeFromBundle_twice_counterexample:
  "fst (InitializeNodeFromBundle demo_env demo_config demo_received empty_world) = Ok \<and>
   fst (InitializeNodeFromBundle demo_env demo_config demo_received
          (snd (snd (InitializeNodeFromBundle demo_env demo_config demo_received empty_world))))
     = Err (New ''inter-node certificate already present'') \<and>
   Err (New ''inter-node certificate already present'') \<noteq>
     Err (Wrap (AlreadyExist ''d/ca.crt'') ''failed to write InterNodeCA to disk'')"
  using InitializeNodeFromBundle_again [OF demo_join, of demo_received] demo_join
  by simp

subsection \<open>The cascade of one slot and the rotation of one slot\<close>



text \<open>
  C5 fails on the code. When the host certificate does not load and the load of the CA
  certificate fails with an error that is not "not found", the function goes on with
  a nil CA certificate. With the real decoders (no certificate and no block in nil
  data) and no CA key in the bundle, it returns "error when decoding PEM CAKey": the
  read failure is not reported.
\<close>

theorem loadOrCreate_CA_read_failure_not_reported:
  assumes "loadCertificateFile w serviceCertPath = Inl e1"
    and "loadCertificateFile w caCertPath = Inl e2" and "\<not> IsNotExist e2"
    and "PEMToCertificates env None = Inr []" and "pem_Decode env None = (None, [])"
    and "CAKey sb = None"
  shows "loadOrCreateServiceCertificates env serviceCertPath serviceKeyPath caCertPath caKeyPath
           serviceCertLifespan caCertLifespan commonName serviceName hostnames dual sb w =
         (Err (New ''error when decoding PEM CAKey''),
          sb\<lparr>HostCertificate := None, CACertificate := None\<rparr>, w)"
  using assms
  by (simp add: loadOrCreateServiceCertificates_def createServiceCertFromCA_def)

theorem loadOrCreate_CA_read_failure_not_reported_witness:
  "loadCertificateFile
     (empty_world\<lparr>files := [''d/ca.crt'' \<mapsto> ''ca-cert ''],
                   read_fault := [''d/ca.crt'' \<mapsto> EACCES]\<rparr>) ''d/node.crt''
     = Inl (NotExist ''d/node.crt'') \<and>
   loadCertificateFile
     (empty_world\<lparr>files := [''d/ca.crt'' \<mapsto> ''ca-cert ''],
                   read_fault := [''d/ca.crt'' \<mapsto> EACCES]\<rparr>) ''d/ca.crt''
     = Inl (OsFault EACCES ''d/ca.crt'') \<and>
   loadOrCreateServiceCertificates demo_env ''d/node.crt'' ''d/node.key'' ''d/ca.crt'' ''d/ca.key''
       defaultCertLifetime defaultCALifetime ''node'' serviceNameInterNode [''n1''] True
       zeroServiceCertificateBundle
       (empty_world\<lparr>files := [''d/ca.crt'' \<mapsto> ''ca-cert ''],
                     read_fault := [''d/ca.crt'' \<mapsto> EACCES]\<rparr>) =
     (Err (New ''error when decoding PEM CAKey''),
      zeroServiceCertificateBundle\<lparr>HostCertificate := None, CACertificate := None\<rparr>,
      empty_world\<lparr>files := [''d/ca.crt'' \<mapsto> ''ca-cert ''],
                    read_fault := [''d/ca.crt'' \<mapsto> EACCES]\<rparr>)"
  using loadOrCreate_CA_read_failure_not_reported
    [of "empty_world\<lparr>files := [''d/ca.crt'' \<mapsto> ''ca-cert ''],
                       read_fault := [''d/ca.crt'' \<mapsto> EACCES]\<rparr>"
        "''d/node.crt''" "NotExist ''d/node.crt''" "''d/ca.crt''" "OsFault EACCES ''d/ca.crt''"
        demo_env zeroServiceCertificateBundle "''d/node.key''" "''d/ca.key''"
        defaultCertLifetime defaultCALifetime "''node''" serviceNameInterNode "[''n1'']" True]
  by (simp add: loadCertificateFile_def ReadFile_def empty_world_def demo_env_simps
        demo_PEMToCertificates_def demo_Decode_def zeroServiceCertificateBundle_def)

lemma Stat_entropy [simp]: "Stat (w\<lparr>entropy := n\<rparr>) p = Stat w p"
  by (simp add: Stat_def split: option.split)

text \<open>
  C9. When the status of the host certificate file cannot be read (the file is absent),
  \<open>rotateServiceCert\<close> never returns nil and never writes a file; when the CA of the
  bundle decodes and the new pair is generated, it returns the status error wrapped
  in "failed to rotate certs for", after the generation (one draw) and before any
  write.
\<close>

theorem rotateServiceCert_absent_host_cert:
  assumes "Stat w certPath = Inl serr"
  shows "fst (rotateServiceCert env certPath keyPath lifespan commonName serviceString hostnames
                dual sb w) \<noteq> Ok \<and>
         files (snd (rotateServiceCert env certPath keyPath lifespan commonName serviceString
                       hostnames dual sb w)) = files w \<and>
         written (snd (rotateServiceCert env certPath keyPath lifespan commonName serviceString
                         hostnames dual sb w)) = written w \<and>
         (PEMToCertificates env (CACertificate sb) = Inr (caCert0 # caCerts) \<longrightarrow>
          pem_Decode env (CAKey sb) = (Some caKeyPEM, []) \<longrightarrow>
          CreateServiceCertAndKey env (entropy w) lifespan commonName hostnames caCert0 caKeyPEM dual
            = Inr (certPEM, keyPEM) \<longrightarrow>
          rotateServiceCert env certPath keyPath lifespan commonName serviceString hostnames
            dual sb w =
          (Err (Wrapf serr ''failed to rotate certs for %q'' [serviceString]),
           w\<lparr>entropy := Suc (entropy w)\<rparr>))"
  using assms
  by (simp add: rotateServiceCert_def split: sum.split prod.split option.split list.split)

theorem rotateServiceCert_absent_host_cert_witness:
  "Stat (empty_world\<lparr>files := [''d/ca.crt'' \<mapsto> ''ca-cert '', ''d/ca.key'' \<mapsto> ''ca-key '']\<rparr>)
     ''d/node.crt'' = Inl (NotExist ''d/node.crt'') \<and>
   rotateServiceCert demo_env ''d/node.crt'' ''d/node.key'' defaultCertLifetime ''node''
       serviceNameInterNode [''n1''] True
       (zeroServiceCertificateBundle\<lparr>CACertificate := Some ''ca-cert '',
                                      CAKey := Some ''ca-key ''\<rparr>)
       (empty_world\<lparr>files := [''d/ca.crt'' \<mapsto> ''ca-cert '', ''d/ca.key'' \<mapsto> ''ca-key '']\<rparr>) =
     (Err (Wrapf (NotExist ''d/node.crt'') ''failed to rotate certs for %q''
             [serviceNameInterNode]),
      empty_world\<lparr>files := [''d/ca.crt'' \<mapsto> ''ca-cert '', ''d/ca.key'' \<mapsto> ''ca-key ''],
                    entropy := Suc 0\<rparr>)"
  using rotateServiceCert_absent_host_cert
    [where w = "empty_world\<lparr>files := [''d/ca.crt'' \<mapsto> ''ca-cert '',
                                         ''d/ca.key'' \<mapsto> ''ca-key '']\<rparr>"
       and certPath = "''d/node.crt''" and serr = "NotExist ''d/node.crt''"
       and env = demo_env and keyPath = "''d/node.key''" and lifespan = defaultCertLifetime
       and commonName = "''node''" and serviceString = serviceNameInterNode
       and hostnames = "[''n1'']" and dual = True
       and sb = "zeroServiceCertificateBundle\<lparr>CACertificate := Some ''ca-cert '',
                                                CAKey := Some ''ca-key ''\<rparr>"
       and ?caCert0.0 = "demo_block ''ca-cert ''" and caCerts = "[]"
       and caKeyPEM = "demo_block ''ca-key ''"
       and certPEM = "demo_block ''cert ''" and keyPEM = "demo_block ''key ''"]
  by (simp add: Stat_def empty_world_def demo_env_simps demo_generators
        demo_PEMToCertificates_def demo_Decode_def zeroServiceCertificateBundle_def)

subsection \<open>A received slot without a CA\<close>

lemma frame_refl [simp]: "frame P w w"
  by (simp add: frame_def)

lemma frame_trans:
  "frame P w w1 \<Longrightarrow> frame Q w1 w2 \<Longrightarrow> frame (P \<union> Q) w w2"
  by (auto simp: frame_def)





























end
